theory Spec2Isabelle
  imports
    Main
    "HOL-Library.Product_Lexorder"
    "HOL-Library.List_Lexorder"
    "HOL-Library.Char_ord"
    "HOL-Library.Multiset"
begin

section \<open>Python values and strings\<close>

text \<open>
  The metadata handler, the learning engine and the usage store of the application are
  embedded as HOL functions. A metadata record arrives as decoded JSON: a dictionary from
  section names to section values, a well-formed section being itself a dictionary from
  field names to scalar values. A dictionary is an association list in insertion order
  (the order Python iterates in); its keys are strings, as JSON object keys are.

  Strings are lists of characters with one \<^typ>\<open>char\<close> for each code point below 256;
  the tables below give Python's \<^verbatim>\<open>str.isspace\<close>, \<^verbatim>\<open>str.isdigit\<close> and
  \<^verbatim>\<open>str.lower\<close> on that range. Floating-point field values are left out of the value
  type.
\<close>

datatype scalar = PyNone | PyBool bool | PyInt int | PyStr string

datatype pyval = Scalar scalar | PyList "scalar list" | PyDict "(string \<times> scalar) list"

type_synonym metadata = "(string \<times> pyval) list"

datatype error = TypeError | KeyError

text \<open>Truth value of a scalar in a condition (\<^verbatim>\<open>if field_value\<close>).\<close>

fun truthy :: "scalar \<Rightarrow> bool" where
  "truthy PyNone = False"
| "truthy (PyBool b) = b"
| "truthy (PyInt i) = (i \<noteq> 0)"
| "truthy (PyStr s) = (s \<noteq> [])"

fun str_nat :: "nat \<Rightarrow> string" where
  "str_nat n =
     (if n < 10 then [''0123456789'' ! n]
      else str_nat (n div 10) @ [''0123456789'' ! (n mod 10)])"

declare str_nat.simps [simp del]

text \<open>\<^verbatim>\<open>str(value)\<close> on a scalar.\<close>

fun py_str :: "scalar \<Rightarrow> string" where
  "py_str PyNone = ''None''"
| "py_str (PyBool b) = (if b then ''True'' else ''False'')"
| "py_str (PyInt i) = (if i < 0 then CHR ''-'' # str_nat (nat (- i)) else str_nat (nat i))"
| "py_str (PyStr s) = s"

definition whitespace :: "char list" where
  "whitespace =
     [CHR 0x09, CHR 0x0A, CHR 0x0B, CHR 0x0C, CHR 0x0D, CHR 0x1C, CHR 0x1D, CHR 0x1E,
      CHR 0x1F, CHR 0x20, CHR 0x85, CHR 0xA0]"

definition isspace :: "char \<Rightarrow> bool" where
  "isspace c = (c \<in> set whitespace)"

definition isdigit :: "char \<Rightarrow> bool" where
  "isdigit c = (c \<in> set (''0123456789'' @ [CHR 0xB2, CHR 0xB3, CHR 0xB9]))"

text \<open>\<^verbatim>\<open>s.strip()\<close>: white space removed at both ends.\<close>

definition strip :: "string \<Rightarrow> string" where
  "strip s = rev (dropWhile isspace (rev (dropWhile isspace s)))"

definition upper_case :: "char list" where
  "upper_case =
     ''ABCDEFGHIJKLMNOPQRSTUVWXYZ'' @
     [CHR 0xC0, CHR 0xC1, CHR 0xC2, CHR 0xC3, CHR 0xC4, CHR 0xC5, CHR 0xC6, CHR 0xC7,
      CHR 0xC8, CHR 0xC9, CHR 0xCA, CHR 0xCB, CHR 0xCC, CHR 0xCD, CHR 0xCE, CHR 0xCF,
      CHR 0xD0, CHR 0xD1, CHR 0xD2, CHR 0xD3, CHR 0xD4, CHR 0xD5, CHR 0xD6,
      CHR 0xD8, CHR 0xD9, CHR 0xDA, CHR 0xDB, CHR 0xDC, CHR 0xDD, CHR 0xDE]"

definition lower_case :: "char list" where
  "lower_case =
     ''abcdefghijklmnopqrstuvwxyz'' @
     [CHR 0xE0, CHR 0xE1, CHR 0xE2, CHR 0xE3, CHR 0xE4, CHR 0xE5, CHR 0xE6, CHR 0xE7,
      CHR 0xE8, CHR 0xE9, CHR 0xEA, CHR 0xEB, CHR 0xEC, CHR 0xED, CHR 0xEE, CHR 0xEF,
      CHR 0xF0, CHR 0xF1, CHR 0xF2, CHR 0xF3, CHR 0xF4, CHR 0xF5, CHR 0xF6,
      CHR 0xF8, CHR 0xF9, CHR 0xFA, CHR 0xFB, CHR 0xFC, CHR 0xFD, CHR 0xFE]"

definition lower_char :: "char \<Rightarrow> char" where
  "lower_char c = (case map_of (zip upper_case lower_case) c of None \<Rightarrow> c | Some l \<Rightarrow> l)"

text \<open>\<^verbatim>\<open>s.lower()\<close>.\<close>

definition lower :: "string \<Rightarrow> string" where
  "lower s = map lower_char s"

fun starts_with :: "string \<Rightarrow> string \<Rightarrow> bool" where
  "starts_with [] s = True"
| "starts_with (k # ks) [] = False"
| "starts_with (k # ks) (c # cs) = (k = c \<and> starts_with ks cs)"

text \<open>\<^verbatim>\<open>keyword in s\<close> on two strings: the keyword occurs as a contiguous substring.\<close>

fun str_contains :: "string \<Rightarrow> string \<Rightarrow> bool" where
  "str_contains k [] = (k = [])"
| "str_contains k (c # cs) = (starts_with k (c # cs) \<or> str_contains k cs)"

text \<open>\<^verbatim>\<open>d.get(key, {})\<close> on a record.\<close>

definition dict_get :: "metadata \<Rightarrow> string \<Rightarrow> pyval" where
  "dict_get d k = (case map_of d k of None \<Rightarrow> PyDict [] | Some v \<Rightarrow> v)"

text \<open>
  \<^verbatim>\<open>key in container\<close> for a string key: a key of a dictionary, an element of a list,
  a substring of a string; any other operand raises \<^verbatim>\<open>TypeError\<close>.
\<close>

fun py_in :: "string \<Rightarrow> pyval \<Rightarrow> error + bool" where
  "py_in k (PyDict d) = Inr (k \<in> set (map fst d))"
| "py_in k (PyList l) = Inr (PyStr k \<in> set l)"
| "py_in k (Scalar (PyStr s)) = Inr (str_contains k s)"
| "py_in k (Scalar v) = Inl TypeError"

text \<open>\<^verbatim>\<open>d[key] = value\<close> on an insertion-ordered dictionary.\<close>

fun dict_set :: "'k \<Rightarrow> 'v \<Rightarrow> ('k \<times> 'v) list \<Rightarrow> ('k \<times> 'v) list" where
  "dict_set k v [] = [(k, v)]"
| "dict_set k v (p # ps) = (if fst p = k then (k, v) # ps else p # dict_set k v ps)"

section \<open>Metadata handler\<close>

subsection \<open>Validation\<close>

text \<open>
  \<^verbatim>\<open>validate_metadata\<close> collects messages in a local list \<^verbatim>\<open>errors\<close>. Field names are
  dictionary keys of decoded JSON, so the test \<^verbatim>\<open>isinstance(field_name, str)\<close> holds
  and only the emptiness test can add a message for a field. The function body ends
  after the loops: there is no \<^verbatim>\<open>return\<close> statement, so the call yields Python's
  \<^verbatim>\<open>None\<close>, modelled as \<^term>\<open>None\<close>.
\<close>

definition quoted :: "string \<Rightarrow> string" where
  "quoted s = [CHR 0x27] @ s @ [CHR 0x27]"

fun validate_fields :: "string \<Rightarrow> (string \<times> scalar) list \<Rightarrow> string list \<Rightarrow> string list" where
  "validate_fields section [] errors = errors"
| "validate_fields section ((fname, fvalue) # rest) errors =
     (if strip fname = []
      then validate_fields section rest
             (errors @ [''Field name in '' @ quoted section @ '' cannot be empty''])
      else validate_fields section rest errors)"

fun validate_sections :: "metadata \<Rightarrow> string list \<Rightarrow> string list" where
  "validate_sections [] errors = errors"
| "validate_sections ((section, PyDict flds) # rest) errors =
     validate_sections rest (validate_fields section flds errors)"
| "validate_sections ((section, other) # rest) errors =
     validate_sections rest (errors @ [''Section '' @ quoted section @ '' must be a dictionary''])"

definition validate_metadata :: "metadata \<Rightarrow> string list option" where
  "validate_metadata metadata = (let errors = validate_sections metadata [] in None)"

subsection \<open>Writing metadata\<close>

text \<open>
  The handler holds the set of supported extensions. The file system is consulted through
  \<^verbatim>\<open>os.path.exists\<close> and \<^verbatim>\<open>Path(image_path).suffix\<close>; both are taken from an
  environment. The contents of the image files are a state \<open>'w\<close> that a section writer
  receives and returns together with its success flag.
\<close>

record handler =
  supported_formats :: "string list"

record env =
  path_exists :: "string \<Rightarrow> bool"
  path_suffix :: "string \<Rightarrow> string"

definition default_formats :: "string list" where
  "default_formats = [''.jpg'', ''.jpeg'', ''.png'', ''.tiff'', ''.tif'', ''.bmp'', ''.webp'']"

type_synonym 'w writer = "'w \<Rightarrow> string \<Rightarrow> pyval \<Rightarrow> bool \<times> 'w"

text \<open>
  The three section writers of the source (\<^verbatim>\<open>_update_exif_data\<close>, \<^verbatim>\<open>_update_iptc_data\<close>,
  \<^verbatim>\<open>_update_xmp_data\<close>): each logs a line and returns \<^verbatim>\<open>True\<close>.
\<close>

definition update_exif_data :: "'w writer" where
  "update_exif_data w image_path exif_data = (True, w)"

definition update_iptc_data :: "'w writer" where
  "update_iptc_data w image_path iptc_data = (True, w)"

definition update_xmp_data :: "'w writer" where
  "update_xmp_data w image_path xmp_data = (True, w)"

text \<open>
  The update that \<^verbatim>\<open>update_metadata\<close> receives is whatever JSON value the request
  held under \<^verbatim>\<open>metadata\<close>: a record, a list or a scalar. On it the function evaluates
  \<^verbatim>\<open>name in new_metadata\<close> and \<^verbatim>\<open>new_metadata[name]\<close> with a string \<^verbatim>\<open>name\<close>:
  membership is a key test on a record, an element test on a list, a substring test on a
  string and a \<^verbatim>\<open>TypeError\<close> on anything else; the subscript yields the section of a
  record and raises \<^verbatim>\<open>TypeError\<close> on a list or a scalar.
\<close>

datatype payload = PyRecord metadata | PySequence "pyval list" | PyAtom scalar

fun payload_in :: "string \<Rightarrow> payload \<Rightarrow> error + bool" where
  "payload_in name (PyRecord d) = Inr (name \<in> set (map fst d))"
| "payload_in name (PySequence l) = Inr (Scalar (PyStr name) \<in> set l)"
| "payload_in name (PyAtom (PyStr s)) = Inr (str_contains name s)"
| "payload_in name (PyAtom v) = Inl TypeError"

fun payload_item :: "payload \<Rightarrow> string \<Rightarrow> error + pyval" where
  "payload_item (PyRecord d) name =
     (case map_of d name of None \<Rightarrow> Inl KeyError | Some v \<Rightarrow> Inr v)"
| "payload_item (PySequence l) name = Inl TypeError"
| "payload_item (PyAtom v) name = Inl TypeError"

text \<open>
  One step \<^verbatim>\<open>if name in new_metadata: success &= writer(image_path, new_metadata[name])\<close>
  of \<^verbatim>\<open>update_metadata\<close>. The state of the \<^verbatim>\<open>try\<close> block is the flag \<^verbatim>\<open>success\<close>, or
  the exception that has been raised, together with the files as the writers have left
  them so far; after an exception no further step runs.
\<close>

definition update_section ::
  "'w writer \<Rightarrow> string \<Rightarrow> string \<Rightarrow> payload \<Rightarrow> (error + bool) \<times> 'w \<Rightarrow> (error + bool) \<times> 'w" where
  "update_section writer name image_path new_metadata st =
     (case fst st of
        Inl e \<Rightarrow> st
      | Inr success \<Rightarrow>
          (case payload_in name new_metadata of
             Inl e \<Rightarrow> (Inl e, snd st)
           | Inr present \<Rightarrow>
               if present
               then (case payload_item new_metadata name of
                       Inl e \<Rightarrow> (Inl e, snd st)
                     | Inr section_data \<Rightarrow>
                         (let (ok, w') = writer (snd st) image_path section_data
                          in (Inr (success \<and> ok), w')))
               else st))"

text \<open>
  \<^verbatim>\<open>update_metadata\<close> with the three writers it dispatches to as parameters. A missing
  file raises \<^verbatim>\<open>FileNotFoundError\<close> inside the \<^verbatim>\<open>try\<close>; that exception and any
  exception of a step reach the handler, which logs and returns \<^verbatim>\<open>False\<close>. What the
  writers wrote before stays written.
\<close>

definition update_metadata_with ::
  "'w writer \<Rightarrow> 'w writer \<Rightarrow> 'w writer \<Rightarrow> handler \<Rightarrow> env \<Rightarrow> string \<Rightarrow> payload \<Rightarrow> 'w
     \<Rightarrow> bool \<times> 'w" where
  "update_metadata_with exif iptc xmp h e image_path new_metadata w =
     (if \<not> path_exists e image_path then (False, w)
      else
        let file_ext = lower (path_suffix e image_path)
        in if file_ext \<notin> set (supported_formats h) then (False, w)
           else
             (case update_section xmp ''XMP'' image_path new_metadata
                     (update_section iptc ''IPTC'' image_path new_metadata
                       (update_section exif ''EXIF'' image_path new_metadata (Inr True, w)))
              of (Inl e, w') \<Rightarrow> (False, w')
               | (Inr success, w') \<Rightarrow> (success, w')))"


text \<open>A file system that holds one file, with the suffix of its path.\<close>

definition single_file :: "string \<Rightarrow> string \<Rightarrow> env" where
  "single_file path suffix = \<lparr>path_exists = (\<lambda>p. p = path), path_suffix = (\<lambda>p. suffix)\<rparr>"

section \<open>Usage store\<close>

text \<open>
  The SQLite tables are lists of rows in row-id order. A time stamp is a number of
  seconds; the text form \<^verbatim>\<open>YYYY-MM-DD HH:MM:SS\<close> that SQLite stores has a fixed width, so
  it sorts as the time it denotes. Every method of the store wraps its body in
  \<^verbatim>\<open>try/except\<close> and returns a sentinel when SQLite raises; whether the call goes
  through is the parameter \<open>ok\<close>, the value of \<^verbatim>\<open>CURRENT_TIMESTAMP\<close> is the
  parameter \<open>now\<close>. A failed call leaves the tables as they were: the connection's
  context manager rolls the transaction back. Counts are integers without a bound, as in
  Python; the 64-bit range of an SQLite \<^verbatim>\<open>INTEGER\<close> column is not modelled.
\<close>

record usage_row =
  row_id :: nat
  field_name :: string
  field_value :: string
  usage_count :: int
  last_used :: int
  created_at :: int

record preference_row =
  preference_key :: string
  preference_value :: string
  updated_at :: int

record database =
  metadata_learning :: "usage_row list"
  learning_seq :: nat
  user_preferences :: "preference_row list"

record suggestion =
  sg_value :: string
  sg_usage_count :: int
  sg_last_used :: int

definition save_metadata_value ::
  "bool \<Rightarrow> int \<Rightarrow> string \<Rightarrow> string \<Rightarrow> database \<Rightarrow> bool \<times> database" where
  "save_metadata_value ok now fname fvalue db =
     (if \<not> ok then (False, db)
      else
        case find (\<lambda>r. field_name r = fname \<and> field_value r = fvalue) (metadata_learning db) of
          Some result \<Rightarrow>
            (True,
             db\<lparr>metadata_learning :=
                  map (\<lambda>r. if row_id r = row_id result
                           then r\<lparr>usage_count := usage_count result + 1, last_used := now\<rparr>
                           else r)
                      (metadata_learning db)\<rparr>)
        | None \<Rightarrow>
            (True,
             db\<lparr>metadata_learning :=
                  metadata_learning db @
                    [\<lparr>row_id = learning_seq db + 1, field_name = fname, field_value = fvalue,
                      usage_count = 1, last_used = now, created_at = now\<rparr>],
                learning_seq := learning_seq db + 1\<rparr>))"

text \<open>\<^verbatim>\<open>LIMIT ?\<close>: a negative limit means no limit.\<close>

definition sql_limit :: "int \<Rightarrow> 'a list \<Rightarrow> 'a list" where
  "sql_limit limit xs = (if limit < 0 then xs else take (nat limit) xs)"

definition to_suggestion :: "usage_row \<Rightarrow> suggestion" where
  "to_suggestion r =
     \<lparr>sg_value = field_value r, sg_usage_count = usage_count r, sg_last_used = last_used r\<rparr>"

text \<open>
  \<^verbatim>\<open>ORDER BY usage_count DESC, last_used DESC\<close>; rows that agree on both columns stay in
  row-id order.
\<close>

definition get_field_suggestions :: "bool \<Rightarrow> string \<Rightarrow> int \<Rightarrow> database \<Rightarrow> suggestion list" where
  "get_field_suggestions ok fname limit db =
     (if \<not> ok then []
      else
        let results =
              sql_limit limit
                (sort_key (\<lambda>r. (- usage_count r, - last_used r))
                   (filter (\<lambda>r. field_name r = fname) (metadata_learning db)))
        in map to_suggestion results)"

text \<open>
  \<^verbatim>\<open>if key not in d: d[key] = []\<close> followed by \<^verbatim>\<open>d[key].append(x)\<close>; the same
  function gives \<^verbatim>\<open>d[key].append(x)\<close> on a \<^verbatim>\<open>defaultdict(list)\<close>.
\<close>

fun dict_append :: "'k \<Rightarrow> 'v \<Rightarrow> ('k \<times> 'v list) list \<Rightarrow> ('k \<times> 'v list) list" where
  "dict_append k x [] = [(k, [x])]"
| "dict_append k x (p # ps) =
     (if fst p = k then (k, snd p @ [x]) # ps else p # dict_append k x ps)"


text \<open>
  \<^verbatim>\<open>json.dumps\<close> and \<^verbatim>\<open>json.loads\<close> belong to the Python library and are parameters.
  A call of \<^verbatim>\<open>json.loads\<close> returns the decoded value, raises \<^verbatim>\<open>JSONDecodeError\<close>, which
  \<^verbatim>\<open>get_user_preference\<close> answers with the stored text, or raises another exception
  (\<^verbatim>\<open>RecursionError\<close>, a plain \<^verbatim>\<open>ValueError\<close>), which reaches the outer handler and is
  answered with the default. \<^verbatim>\<open>INSERT OR REPLACE\<close> deletes the row that holds the key and
  appends the new one.
\<close>

datatype decoded = Decoded pyval | JSONDecodeError | OtherError

definition save_user_preference ::
  "bool \<Rightarrow> int \<Rightarrow> (pyval \<Rightarrow> string) \<Rightarrow> string \<Rightarrow> pyval \<Rightarrow> database \<Rightarrow> bool \<times> database" where
  "save_user_preference ok now json_dumps key val db =
     (if \<not> ok then (False, db)
      else
        let text = (case val of Scalar s \<Rightarrow> py_str s | _ \<Rightarrow> json_dumps val)
        in (True,
            db\<lparr>user_preferences :=
                 filter (\<lambda>r. preference_key r \<noteq> key) (user_preferences db) @
                   [\<lparr>preference_key = key, preference_value = text, updated_at = now\<rparr>]\<rparr>))"

definition get_user_preference ::
  "bool \<Rightarrow> (string \<Rightarrow> decoded) \<Rightarrow> string \<Rightarrow> pyval \<Rightarrow> database \<Rightarrow> pyval" where
  "get_user_preference ok json_loads key dflt db =
     (if \<not> ok then dflt
      else
        case find (\<lambda>r. preference_key r = key) (user_preferences db) of
          Some result \<Rightarrow>
            (case json_loads (preference_value result) of
               Decoded v \<Rightarrow> v
             | JSONDecodeError \<Rightarrow> Scalar (PyStr (preference_value result))
             | OtherError \<Rightarrow> dflt)
        | None \<Rightarrow> dflt)"

text \<open>
  \<^verbatim>\<open>cleanup_old_data\<close> for a non-negative number of days: the rows last used before
  the cut-off are deleted and counted.
\<close>

definition cleanup_old_data :: "bool \<Rightarrow> int \<Rightarrow> nat \<Rightarrow> database \<Rightarrow> nat \<times> database" where
  "cleanup_old_data ok now days db =
     (if \<not> ok then (0, db)
      else
        let stale = (\<lambda>r. last_used r < now - 86400 * int days)
        in (length (filter stale (metadata_learning db)),
            db\<lparr>metadata_learning := filter (\<lambda>r. \<not> stale r) (metadata_learning db)\<rparr>))"

section \<open>Learning engine\<close>

text \<open>
  The engine is constructed over a store object and only calls its methods, so the
  engine's functions take the methods they call as parameters: \<open>save\<close> stands for
  \<^verbatim>\<open>self.db.save_metadata_value\<close> acting on a store state \<open>'db\<close>, \<open>query\<close> for
  \<^verbatim>\<open>self.db.get_field_suggestions\<close>. The engine's own state is the dictionary
  \<^verbatim>\<open>field_patterns\<close>.
\<close>

type_synonym field_patterns = "(string \<times> string list) list"

type_synonym 'db save = "string \<Rightarrow> string \<Rightarrow> 'db \<Rightarrow> bool \<times> 'db"

type_synonym query = "string \<Rightarrow> int \<Rightarrow> suggestion list"

definition location_keywords :: "string list" where
  "location_keywords = [''street'', ''avenue'', ''road'', ''lane'', ''city'', ''country'', ''state'']"

definition name_keywords :: "string list" where
  "name_keywords = [''mr'', ''mrs'', ''ms'', ''dr'', ''prof'']"

text \<open>The local list \<^verbatim>\<open>patterns\<close> that \<^verbatim>\<open>_update_field_patterns\<close> builds for a value.\<close>

definition value_patterns :: "scalar \<Rightarrow> string list" where
  "value_patterns fvalue =
     (let value_str = strip (lower (py_str fvalue))
      in (if str_contains ''@'' value_str \<and> str_contains ''.'' value_str then [''email''] else []) @
         (if list_ex isdigit value_str
          then (if 8 \<le> length value_str then [''date''] else [])
          else []) @
         (if list_ex (\<lambda>keyword. str_contains keyword value_str) location_keywords
          then [''location''] else []) @
         (if list_ex (\<lambda>keyword. str_contains keyword value_str) name_keywords
          then [''name''] else []))"

definition update_field_patterns :: "string \<Rightarrow> scalar \<Rightarrow> field_patterns \<Rightarrow> field_patterns" where
  "update_field_patterns fname fvalue fp =
     foldl (\<lambda>fp pattern. dict_append fname pattern fp) fp (value_patterns fvalue)"

fun learn_fields ::
  "'db save \<Rightarrow> (string \<times> scalar) list \<Rightarrow> 'db \<times> field_patterns \<Rightarrow> 'db \<times> field_patterns" where
  "learn_fields save [] st = st"
| "learn_fields save ((fname, fvalue) # rest) st =
     (if truthy fvalue \<and> strip (py_str fvalue) \<noteq> []
      then learn_fields save rest
             (snd (save fname (py_str fvalue) (fst st)),
              update_field_patterns fname fvalue (snd st))
      else learn_fields save rest st)"

fun learn_sections ::
  "'db save \<Rightarrow> metadata \<Rightarrow> 'db \<times> field_patterns \<Rightarrow> 'db \<times> field_patterns" where
  "learn_sections save [] st = st"
| "learn_sections save ((section, PyDict flds) # rest) st =
     learn_sections save rest (learn_fields save flds st)"
| "learn_sections save ((section, other) # rest) st = learn_sections save rest st"

text \<open>
  No statement inside the \<^verbatim>\<open>try\<close> of \<^verbatim>\<open>learn_from_metadata\<close> can raise on a record
  of this type (the store swallows its own exceptions), so the function reaches
  \<^verbatim>\<open>return True\<close>.
\<close>

definition learn_from_metadata ::
  "'db save \<Rightarrow> metadata \<Rightarrow> 'db \<times> field_patterns \<Rightarrow> bool \<times> 'db \<times> field_patterns" where
  "learn_from_metadata save metadata st = (True, learn_sections save metadata st)"

subsection \<open>Suggestions\<close>

definition analyze_field :: "string \<Rightarrow> field_patterns \<Rightarrow> field_patterns" where
  "analyze_field fname patterns =
     (let p1 = (if fname \<in> set [''Make'', ''Model'', ''Software'', ''ExposureTime'', ''FNumber'']
                then dict_append ''camera_info'' fname patterns else patterns);
          p2 = (if fname \<in> set [''GPSLatitude'', ''GPSLongitude'', ''GPSAltitude'']
                then dict_append ''location_info'' fname p1 else p1);
          p3 = (if fname \<in> set [''Artist'', ''Copyright'', ''ByLine'']
                then dict_append ''author_info'' fname p2 else p2)
      in if str_contains ''Date'' fname \<or> str_contains ''Time'' fname
         then dict_append ''date_info'' fname p3 else p3)"

fun analyze_fields :: "(string \<times> scalar) list \<Rightarrow> field_patterns \<Rightarrow> field_patterns" where
  "analyze_fields [] patterns = patterns"
| "analyze_fields ((fname, fvalue) # rest) patterns =
     (if \<not> truthy fvalue then analyze_fields rest patterns
      else analyze_fields rest (analyze_field fname patterns))"

fun analyze_sections :: "metadata \<Rightarrow> field_patterns \<Rightarrow> field_patterns" where
  "analyze_sections [] patterns = patterns"
| "analyze_sections ((section, PyDict flds) # rest) patterns =
     analyze_sections rest (analyze_fields flds patterns)"
| "analyze_sections ((section, other) # rest) patterns = analyze_sections rest patterns"

definition analyze_metadata_patterns :: "metadata \<Rightarrow> field_patterns" where
  "analyze_metadata_patterns metadata = analyze_sections metadata []"

text \<open>
  \<^verbatim>\<open>if trigger in fields and target not in current_metadata.get('EXIF', {})\<close> followed by
  the store query: the membership test on the section is evaluated only when the trigger
  is present, and may raise.
\<close>

definition suggest_related ::
  "query \<Rightarrow> metadata \<Rightarrow> string \<Rightarrow> string \<Rightarrow> string list \<Rightarrow> (string \<times> suggestion list) list
     \<Rightarrow> error + (string \<times> suggestion list) list" where
  "suggest_related query current_metadata trigger target flds contextual =
     (if trigger \<in> set flds
      then (case py_in target (dict_get current_metadata ''EXIF'') of
              Inl e \<Rightarrow> Inl e
            | Inr present \<Rightarrow>
                if \<not> present
                then (let suggestions = query target 3
                      in if suggestions \<noteq> [] then Inr (dict_set target suggestions contextual)
                         else Inr contextual)
                else Inr contextual)
      else Inr contextual)"

fun contextual_loop ::
  "query \<Rightarrow> metadata \<Rightarrow> field_patterns \<Rightarrow> (string \<times> suggestion list) list
     \<Rightarrow> error + (string \<times> suggestion list) list" where
  "contextual_loop query current_metadata [] contextual = Inr contextual"
| "contextual_loop query current_metadata ((pattern, flds) # rest) contextual =
     (case
        (if pattern = ''camera_info''
         then suggest_related query current_metadata ''Make'' ''Model'' flds contextual
         else if pattern = ''location_info''
         then (if ''GPSLatitude'' \<in> set flds \<and> ''GPSLongitude'' \<in> set flds
               then (let suggestions = query ''Location'' 3
                     in if suggestions \<noteq> []
                        then Inr (dict_set ''Location'' suggestions contextual)
                        else Inr contextual)
               else Inr contextual)
         else if pattern = ''author_info''
         then suggest_related query current_metadata ''Artist'' ''Copyright'' flds contextual
         else Inr contextual)
      of Inl e \<Rightarrow> Inl e
       | Inr contextual' \<Rightarrow> contextual_loop query current_metadata rest contextual')"

text \<open>An exception inside \<^verbatim>\<open>_get_contextual_suggestions\<close> is logged and answered by \<^verbatim>\<open>{}\<close>.\<close>

definition get_contextual_suggestions ::
  "query \<Rightarrow> metadata \<Rightarrow> (string \<times> suggestion list) list" where
  "get_contextual_suggestions query current_metadata =
     (case contextual_loop query current_metadata (analyze_metadata_patterns current_metadata) [] of
        Inl e \<Rightarrow> []
      | Inr contextual \<Rightarrow> contextual)"

fun suggest_fields ::
  "query \<Rightarrow> (string \<times> scalar) list \<Rightarrow> (string \<times> suggestion list) list
     \<Rightarrow> (string \<times> suggestion list) list" where
  "suggest_fields query [] suggestions = suggestions"
| "suggest_fields query ((fname, fvalue) # rest) suggestions =
     (if truthy fvalue \<and> strip (py_str fvalue) \<noteq> []
      then (let field_suggestions = query fname 5
            in if field_suggestions \<noteq> []
               then suggest_fields query rest (dict_set fname field_suggestions suggestions)
               else suggest_fields query rest suggestions)
      else suggest_fields query rest suggestions)"

fun suggest_sections ::
  "query \<Rightarrow> metadata \<Rightarrow> (string \<times> suggestion list) list \<Rightarrow> (string \<times> suggestion list) list" where
  "suggest_sections query [] suggestions = suggestions"
| "suggest_sections query ((section, PyDict flds) # rest) suggestions =
     suggest_sections query rest (suggest_fields query flds suggestions)"
| "suggest_sections query ((section, other) # rest) suggestions =
     suggest_sections query rest suggestions"

text \<open>\<^verbatim>\<open>d.update(other)\<close>.\<close>

definition dict_update :: "('k \<times> 'v) list \<Rightarrow> ('k \<times> 'v) list \<Rightarrow> ('k \<times> 'v) list" where
  "dict_update d other = foldl (\<lambda>d kv. dict_set (fst kv) (snd kv) d) d other"

definition get_suggestions :: "query \<Rightarrow> metadata \<Rightarrow> (string \<times> suggestion list) list" where
  "get_suggestions query current_metadata =
     (let suggestions = suggest_sections query current_metadata [];
          contextual_suggestions = get_contextual_suggestions query current_metadata
      in dict_update suggestions contextual_suggestions)"

subsection \<open>Popular values\<close>






section \<open>Observations on the store\<close>

text \<open>
  The usage entries held for a pair, the bound that every count is at least one, and the
  store after the same pair has been recorded once at each of the given times.
\<close>

definition usage_entries :: "string \<Rightarrow> string \<Rightarrow> database \<Rightarrow> usage_row list" where
  "usage_entries fname fvalue db =
     filter (\<lambda>r. field_name r = fname \<and> field_value r = fvalue) (metadata_learning db)"

definition counts_positive :: "database \<Rightarrow> bool" where
  "counts_positive db = list_all (\<lambda>r. 1 \<le> usage_count r) (metadata_learning db)"

definition save_all :: "int list \<Rightarrow> string \<Rightarrow> string \<Rightarrow> database \<Rightarrow> database" where
  "save_all ts fname fvalue db =
     foldl (\<lambda>db now. snd (save_metadata_value True now fname fvalue db)) db ts"

section \<open>Observations on the engine\<close>

text \<open>
  The fields of a record that \<^verbatim>\<open>learn_from_metadata\<close> does not skip, in the order it
  visits them: the fields of the sections that are mappings whose value is true in a
  condition and whose text is not blank.
\<close>

definition kept_fields :: "metadata \<Rightarrow> (string \<times> scalar) list" where
  "kept_fields metadata =
     concat (map (\<lambda>(section, v).
                    case v of
                      PyDict flds \<Rightarrow>
                        filter (\<lambda>(fname, fvalue). truthy fvalue \<and> strip (py_str fvalue) \<noteq> []) flds
                    | _ \<Rightarrow> [])
                 metadata)"

text \<open>The record without its sections that are not mappings.\<close>

fun is_mapping :: "pyval \<Rightarrow> bool" where
  "is_mapping (PyDict flds) = True"
| "is_mapping v = False"

definition mapping_sections :: "metadata \<Rightarrow> metadata" where
  "mapping_sections metadata = filter (\<lambda>(section, v). is_mapping v) metadata"

text \<open>The query method of a store whose reads go through.\<close>

definition store_query :: "database \<Rightarrow> query" where
  "store_query db fname limit = get_field_suggestions True fname limit db"

text \<open>The store that \<^verbatim>\<open>init_database\<close> creates on a new file: every table is empty.\<close>

definition init_database :: database where
  "init_database = \<lparr>metadata_learning = [], learning_seq = 0, user_preferences = []\<rparr>"

text \<open>
  The list held under a key of a \<^verbatim>\<open>defaultdict(list)\<close>, and the test that some
  section that is a mapping holds the named field with a value that is true in a
  condition.
\<close>

definition dict_list :: "('k \<times> 'v list) list \<Rightarrow> 'k \<Rightarrow> 'v list" where
  "dict_list d k = (case map_of d k of None \<Rightarrow> [] | Some l \<Rightarrow> l)"

definition has_field :: "string \<Rightarrow> metadata \<Rightarrow> bool" where
  "has_field name metadata =
     list_ex (\<lambda>(section, v).
                case v of
                  PyDict flds \<Rightarrow> list_ex (\<lambda>(fname, fvalue). fname = name \<and> truthy fvalue) flds
                | _ \<Rightarrow> False)
             metadata"

text \<open>
  The field names that the contextual rules look for under each pattern of
  \<^verbatim>\<open>_analyze_metadata_patterns\<close>.
\<close>

definition tracked :: "string \<Rightarrow> string \<Rightarrow> bool" where
  "tracked k n \<longleftrightarrow>
     k = ''camera_info'' \<and> n = ''Make'' \<or> k = ''location_info'' \<and> n = ''GPSLatitude'' \<or>
     k = ''location_info'' \<and> n = ''GPSLongitude'' \<or> k = ''author_info'' \<and> n = ''Artist''"

section \<open>Properties of the metadata handler\<close>

lemma lower_JPG: "lower ''.JPG'' = ''.jpg''"
  by (simp add: lower_def lower_char_def upper_case_def lower_case_def)

text \<open>
  Claim C1. \<^verbatim>\<open>validate_metadata\<close> is to return the list of error messages: one
  message naming the section for every section that is not a mapping, one for every
  blank field name, the empty list for a valid record. On the record
  \<^verbatim>\<open>{"EXIF": "not-a-map"}\<close> the loops do build the single message for the section
  \<^verbatim>\<open>EXIF\<close> in the local list, but the function ends without returning it: the call
  yields \<^verbatim>\<open>None\<close>, not a list.
\<close>

theorem validate_metadata_returns_none:
  "validate_sections [(''EXIF'', Scalar (PyStr ''not-a-map''))] [] =
     [''Section '' @ quoted ''EXIF'' @ '' must be a dictionary''] \<and>
   validate_metadata [(''EXIF'', Scalar (PyStr ''not-a-map''))] = None"
  by (simp add: validate_metadata_def)

lemma update_section_record:
  "update_section writer name p (PyRecord md) (Inr b, w) =
     (case map_of md name of
        None \<Rightarrow> (Inr b, w)
      | Some d \<Rightarrow> (Inr (b \<and> fst (writer w p d)), snd (writer w p d)))"
proof (cases "map_of md name")
  case None
  then have "name \<notin> set (map fst md)" by (simp add: map_of_eq_None_iff)
  then show ?thesis using None by (simp add: update_section_def)
next
  case (Some d)
  then have "name \<in> set (map fst md)"
    by (metis map_of_eq_None_iff option.distinct(1) set_map)
  then show ?thesis using Some by (simp add: update_section_def split: prod.split)
qed


lemma non_record_keeps_files:
  "snd (update_section writer name p (PySequence l) st) = snd st"
  "snd (update_section writer name p (PyAtom a) st) = snd st"
  by (simp_all add: update_section_def split: sum.splits)




text \<open>
  Claim C3, for an update that is a record. For an existing file of a supported format
  and any three section writers, \<^verbatim>\<open>update_metadata\<close> runs the writer of every section
  present in the record, in the order EXIF, IPTC, XMP, each on the files as the previous
  writer left them; the result is the conjunction of the flags the writers reported (an
  absent section counts as success), and the files are returned as the last writer left
  them whatever the flags were: a failed section stops nothing and undoes nothing. For an
  update that is a list or a scalar no writer runs: the files are returned as they were.
\<close>

theorem update_metadata_conjunction:
  assumes "path_exists e p" and "lower (path_suffix e p) \<in> set (supported_formats h)"
  shows "update_metadata_with exif iptc xmp h e p (PyRecord new_metadata) w =
     (let r1 = (case map_of new_metadata ''EXIF'' of
                  None \<Rightarrow> (True, w) | Some d \<Rightarrow> exif w p d);
          r2 = (case map_of new_metadata ''IPTC'' of
                  None \<Rightarrow> (True, snd r1) | Some d \<Rightarrow> iptc (snd r1) p d);
          r3 = (case map_of new_metadata ''XMP'' of
                  None \<Rightarrow> (True, snd r2) | Some d \<Rightarrow> xmp (snd r2) p d)
      in (fst r1 \<and> fst r2 \<and> fst r3, snd r3)) \<and>
     snd (update_metadata_with exif iptc xmp h e p (PySequence l) w) = w \<and>
     snd (update_metadata_with exif iptc xmp h e p (PyAtom a) w) = w"
proof (intro conjI)
  show "update_metadata_with exif iptc xmp h e p (PyRecord new_metadata) w =
     (let r1 = (case map_of new_metadata ''EXIF'' of
                  None \<Rightarrow> (True, w) | Some d \<Rightarrow> exif w p d);
          r2 = (case map_of new_metadata ''IPTC'' of
                  None \<Rightarrow> (True, snd r1) | Some d \<Rightarrow> iptc (snd r1) p d);
          r3 = (case map_of new_metadata ''XMP'' of
                  None \<Rightarrow> (True, snd r2) | Some d \<Rightarrow> xmp (snd r2) p d)
      in (fst r1 \<and> fst r2 \<and> fst r3, snd r3))"
    using assms
    by (simp add: update_metadata_with_def update_section_record Let_def
          split: option.split prod.split)
next
  have "snd (update_section xmp ''XMP'' p (PySequence l)
          (update_section iptc ''IPTC'' p (PySequence l)
             (update_section exif ''EXIF'' p (PySequence l) (Inr True, w)))) = w"
    by (simp add: non_record_keeps_files)
  then show "snd (update_metadata_with exif iptc xmp h e p (PySequence l) w) = w"
    by (auto simp add: update_metadata_with_def Let_def split: prod.splits sum.splits)
next
  have "snd (update_section xmp ''XMP'' p (PyAtom a)
          (update_section iptc ''IPTC'' p (PyAtom a)
             (update_section exif ''EXIF'' p (PyAtom a) (Inr True, w)))) = w"
    by (simp add: non_record_keeps_files)
  then show "snd (update_metadata_with exif iptc xmp h e p (PyAtom a) w) = w"
    by (auto simp add: update_metadata_with_def Let_def split: prod.splits sum.splits)
qed

theorem update_metadata_conjunction_witness:
  "update_metadata_with
     (\<lambda>w p d. (True, w @ [(''EXIF'', d)])) (\<lambda>w p d. (False, w))
     (\<lambda>w p d. (True, w @ [(''XMP'', d)]))
     \<lparr>supported_formats = default_formats\<rparr> (single_file ''/img/a.JPG'' ''.JPG'')
     ''/img/a.JPG''
     (PyRecord [(''EXIF'', PyDict [(''Artist'', PyStr ''Ann'')]),
      (''IPTC'', PyDict [(''City'', PyStr ''Oslo'')])])
     [] = (False, [(''EXIF'', PyDict [(''Artist'', PyStr ''Ann'')])])"
  using update_metadata_conjunction
    [of "single_file ''/img/a.JPG'' ''.JPG''"
        "''/img/a.JPG''" "\<lparr>supported_formats = default_formats\<rparr>"
        "(\<lambda>w p d. (True, w @ [(''EXIF'', d)]))" "(\<lambda>w p d. (False, w))"
        "(\<lambda>w p d. (True, w @ [(''XMP'', d)]))"
        "[(''EXIF'', PyDict [(''Artist'', PyStr ''Ann'')]),
          (''IPTC'', PyDict [(''City'', PyStr ''Oslo'')])]"
        "[] :: (string \<times> pyval) list"]
  by (simp add: lower_JPG default_formats_def single_file_def)

text \<open>
  An update that is the string \<^verbatim>\<open>my EXIF\<close>: the membership test finds the substring,
  the subscript \<^verbatim>\<open>new_metadata['EXIF']\<close> raises \<^verbatim>\<open>TypeError\<close>, and the call returns
  \<^verbatim>\<open>False\<close> although no section writer has reported a failure.
\<close>

theorem update_metadata_string_payload_counterexample:
  "update_exif_data (0::nat) ''/img/a.JPG'' (Scalar (PyStr ''my EXIF'')) = (True, 0) \<and>
   update_metadata_with update_exif_data update_iptc_data update_xmp_data
     \<lparr>supported_formats = default_formats\<rparr> (single_file ''/img/a.JPG'' ''.JPG'')
     ''/img/a.JPG'' (PyAtom (PyStr ''my EXIF'')) (0::nat) = (False, 0)"
  by (simp add: update_metadata_with_def update_section_def update_exif_data_def
        lower_JPG default_formats_def single_file_def)

section \<open>Properties of the usage store\<close>

lemma find_filter_Nil:
  "filter P xs = [] \<Longrightarrow> find P xs = None"
  by (induction xs) (auto split: if_splits)

lemma find_filter_single:
  "filter P xs = [r] \<Longrightarrow> find P xs = Some r"
  by (induction xs) (auto split: if_splits simp: find_filter_Nil)

lemma save_first:
  assumes "usage_entries f v db = []"
  shows "usage_entries f v (snd (save_metadata_value True now f v db)) =
           [\<lparr>row_id = learning_seq db + 1, field_name = f, field_value = v,
             usage_count = 1, last_used = now, created_at = now\<rparr>]"
  using assms find_filter_Nil[of "\<lambda>r. field_name r = f \<and> field_value r = v" "metadata_learning db"]
  by (simp add: usage_entries_def save_metadata_value_def)

lemma save_again:
  assumes "usage_entries f v db = [r]"
  shows "usage_entries f v (snd (save_metadata_value True now f v db)) =
           [r\<lparr>usage_count := usage_count r + 1, last_used := now\<rparr>]"
proof -
  let ?P = "\<lambda>r. field_name r = f \<and> field_value r = v"
  let ?g = "\<lambda>x. if row_id x = row_id r
                 then x\<lparr>usage_count := usage_count r + 1, last_used := now\<rparr> else x"
  have fnd: "find ?P (metadata_learning db) = Some r"
    using assms by (simp add: usage_entries_def find_filter_single)
  have "filter ?P (map ?g (metadata_learning db)) = map ?g (filter ?P (metadata_learning db))"
    by (induction "metadata_learning db") (auto simp: filter_map o_def)
  then show ?thesis
    using assms fnd by (simp add: usage_entries_def save_metadata_value_def)
qed

lemma save_all_again:
  "usage_entries f v db = [r] \<Longrightarrow> ts \<noteq> [] \<Longrightarrow>
   usage_entries f v (save_all ts f v db) =
     [r\<lparr>usage_count := usage_count r + int (length ts), last_used := last ts\<rparr>]"
proof (induction ts arbitrary: db r)
  case Nil
  then show ?case by simp
next
  case (Cons now ts)
  show ?case
  proof (cases "ts = []")
    case True
    then show ?thesis using save_again[OF Cons.prems(1), of now] by (simp add: save_all_def)
  next
    case False
    from Cons.IH[OF save_again[OF Cons.prems(1), of now] False]
    show ?thesis using False by (simp add: save_all_def)
  qed
qed

lemma find_Some_mem: "find P xs = Some r \<Longrightarrow> r \<in> set xs"
  by (induction xs) (auto split: if_splits)

lemma save_keeps_counts_positive:
  assumes "counts_positive db"
  shows "counts_positive (snd (save_metadata_value ok now f v db))"
proof (cases "find (\<lambda>r. field_name r = f \<and> field_value r = v) (metadata_learning db)")
  case None
  then show ?thesis
    using assms by (simp add: counts_positive_def save_metadata_value_def)
next
  case (Some result)
  then have "1 \<le> usage_count result"
    using assms find_Some_mem[OF Some] by (simp add: counts_positive_def list_all_iff)
  then show ?thesis
    using assms Some
    by (auto simp: counts_positive_def save_metadata_value_def list_all_iff)
qed

lemma cleanup_keeps_counts_positive:
  "counts_positive db \<Longrightarrow> counts_positive (snd (cleanup_old_data ok now days db))"
  by (auto simp: counts_positive_def cleanup_old_data_def list_all_iff Let_def)


text \<open>
  Claim C5. Starting from a store with no entry for a pair, recording the pair at the
  times \<open>ts\<close> (one successful call for each time, at least one) leaves exactly one
  entry for the pair, whose count is the number of calls and whose \<^verbatim>\<open>last_used\<close> is
  the time of the last call. A successful call on a store that holds one entry for the
  pair returns \<^verbatim>\<open>True\<close> and adds exactly one to the count of that entry, refreshing
  \<^verbatim>\<open>last_used\<close>. If every count is at least one, this still holds after any call of
  \<^verbatim>\<open>save_metadata_value\<close>, failed or not, and after \<^verbatim>\<open>cleanup_old_data\<close>.
\<close>

theorem record_value_counts:
  "(usage_entries f v db = [] \<and> ts \<noteq> [] \<longrightarrow>
      map (\<lambda>r. (usage_count r, last_used r)) (usage_entries f v (save_all ts f v db)) =
        [(int (length ts), last ts)]) \<and>
   (usage_entries f v db = [r] \<longrightarrow>
      save_metadata_value True now f v db = (True, snd (save_metadata_value True now f v db)) \<and>
      usage_entries f v (snd (save_metadata_value True now f v db)) =
        [r\<lparr>usage_count := usage_count r + 1, last_used := now\<rparr>]) \<and>
   (counts_positive db \<longrightarrow>
      counts_positive (snd (save_metadata_value ok now f v db)) \<and>
      counts_positive (snd (cleanup_old_data ok now days db)))"
proof (intro conjI impI)
  assume a: "usage_entries f v db = [] \<and> ts \<noteq> []"
  then obtain t ts' where ts: "ts = t # ts'" by (cases ts) auto
  let ?new = "\<lparr>row_id = learning_seq db + 1, field_name = f, field_value = v,
               usage_count = 1, last_used = t, created_at = t\<rparr>"
  have first: "usage_entries f v (snd (save_metadata_value True t f v db)) = [?new]"
    using a by (simp add: save_first)
  show "map (\<lambda>r. (usage_count r, last_used r)) (usage_entries f v (save_all ts f v db)) =
          [(int (length ts), last ts)]"
  proof (cases "ts' = []")
    case True
    then show ?thesis using first ts by (simp add: save_all_def)
  next
    case False
    have "save_all ts f v db = save_all ts' f v (snd (save_metadata_value True t f v db))"
      using ts by (simp add: save_all_def)
    then show ?thesis
      using save_all_again[OF first False] False ts by simp
  qed
next
  assume "usage_entries f v db = [r]"
  then show "usage_entries f v (snd (save_metadata_value True now f v db)) =
               [r\<lparr>usage_count := usage_count r + 1, last_used := now\<rparr>]"
    by (rule save_again)
next
  show "save_metadata_value True now f v db = (True, snd (save_metadata_value True now f v db))"
    by (simp add: save_metadata_value_def split: option.split)
next
  assume "counts_positive db"
  then show "counts_positive (snd (save_metadata_value ok now f v db))"
    by (rule save_keeps_counts_positive)
next
  assume "counts_positive db"
  then show "counts_positive (snd (cleanup_old_data ok now days db))"
    by (rule cleanup_keeps_counts_positive)
qed

theorem record_value_counts_witness:
  "usage_entries ''Artist'' ''Ann'' \<lparr>metadata_learning = [], learning_seq = 0, user_preferences = []\<rparr> = [] \<and>
   counts_positive \<lparr>metadata_learning = [], learning_seq = 0, user_preferences = []\<rparr> \<and>
   usage_entries ''Artist'' ''Ann''
     (save_all [5, 9, 12] ''Artist'' ''Ann''
        \<lparr>metadata_learning = [], learning_seq = 0, user_preferences = []\<rparr>) =
     [\<lparr>row_id = 1, field_name = ''Artist'', field_value = ''Ann'', usage_count = 3,
       last_used = 12, created_at = 5\<rparr>] \<and>
   counts_positive
     (save_all [5, 9, 12] ''Artist'' ''Ann''
        \<lparr>metadata_learning = [], learning_seq = 0, user_preferences = []\<rparr>)"
  using record_value_counts
    [of "''Artist''" "''Ann''" "\<lparr>metadata_learning = [], learning_seq = 0, user_preferences = []\<rparr>"
        "[5, 9, 12]"]
  by (simp add: usage_entries_def counts_positive_def save_all_def save_metadata_value_def)

section \<open>Properties of the learning engine\<close>

lemma starts_with_iff: "starts_with k s \<longleftrightarrow> (\<exists>q. s = k @ q)"
  by (induction k s rule: starts_with.induct) auto

lemma str_contains_iff: "str_contains k s \<longleftrightarrow> (\<exists>p q. s = p @ k @ q)"
proof (induction s)
  case Nil
  then show ?case by simp
next
  case (Cons c cs)
  have "(\<exists>p q. c # cs = p @ k @ q) \<longleftrightarrow> (\<exists>q. c # cs = k @ q) \<or> (\<exists>p q. cs = p @ k @ q)"
  proof
    assume "\<exists>p q. c # cs = p @ k @ q"
    then obtain p q where pq: "c # cs = p @ k @ q" by blast
    show "(\<exists>q. c # cs = k @ q) \<or> (\<exists>p q. cs = p @ k @ q)"
    proof (cases p)
      case Nil
      then show ?thesis using pq by auto
    next
      case (Cons a p')
      then have "cs = p' @ k @ q" using pq by simp
      then show ?thesis by blast
    qed
  next
    assume "(\<exists>q. c # cs = k @ q) \<or> (\<exists>p q. cs = p @ k @ q)"
    then show "\<exists>p q. c # cs = p @ k @ q"
    proof
      assume "\<exists>q. c # cs = k @ q"
      then obtain q where "c # cs = [] @ k @ q" by auto
      then show ?thesis by blast
    next
      assume "\<exists>p q. cs = p @ k @ q"
      then obtain p q where "c # cs = (c # p) @ k @ q" by auto
      then show ?thesis by blast
    qed
  qed
  then show ?case using Cons.IH by (simp add: starts_with_iff del: starts_with.simps)
qed

lemma str_contains_char: "str_contains [c] s \<longleftrightarrow> c \<in> set s"
  by (induction s) auto

lemma email_rule:
  "''email'' \<in> set (value_patterns v) \<longleftrightarrow>
     CHR ''@'' \<in> set (strip (lower (py_str v))) \<and> CHR ''.'' \<in> set (strip (lower (py_str v)))"
  by (simp add: value_patterns_def Let_def str_contains_char)

lemma date_rule:
  "''date'' \<in> set (value_patterns v) \<longleftrightarrow>
     (\<exists>c \<in> set (strip (lower (py_str v))). isdigit c) \<and> 8 \<le> length (strip (lower (py_str v)))"
  by (simp add: value_patterns_def Let_def list_ex_iff)

lemma location_rule:
  "''location'' \<in> set (value_patterns v) \<longleftrightarrow>
     (\<exists>k \<in> set [''street'', ''avenue'', ''road'', ''lane'', ''city'', ''country'', ''state''].
        \<exists>p q. strip (lower (py_str v)) = p @ k @ q)"
  by (simp add: value_patterns_def Let_def list_ex_iff location_keywords_def str_contains_iff
           del: str_contains.simps)

lemma name_rule:
  "''name'' \<in> set (value_patterns v) \<longleftrightarrow>
     (\<exists>k \<in> set [''mr'', ''mrs'', ''ms'', ''dr'', ''prof''].
        \<exists>p q. strip (lower (py_str v)) = p @ k @ q)"
  by (simp add: value_patterns_def Let_def list_ex_iff name_keywords_def str_contains_iff
           del: str_contains.simps)

lemma tags_closed:
  "set (value_patterns v) \<subseteq> {''email'', ''date'', ''location'', ''name''}"
  by (auto simp: value_patterns_def Let_def split: if_splits)

lemmas string_tables =
  strip_def lower_def lower_char_def upper_case_def lower_case_def isspace_def whitespace_def
  isdigit_def location_keywords_def name_keywords_def

lemma example_email: "value_patterns (PyStr ''john@example.com'') = [''email'']"
  by (simp add: value_patterns_def Let_def string_tables)

lemma example_location: "value_patterns (PyStr ''123 Main Street'') = [''date'', ''location'']"
  by (simp add: value_patterns_def Let_def string_tables)

lemma example_short: "value_patterns (PyStr ''42'') = []"
  by (simp add: value_patterns_def Let_def string_tables)

lemma str_nat_42: "str_nat 42 = ''42''"
  by (simp add: str_nat.simps)

lemma example_short_int: "value_patterns (PyInt 42) = []"
  by (simp add: value_patterns_def Let_def string_tables str_nat_42)

lemma classification_rules:
  "(''email'' \<in> set (value_patterns v) \<longleftrightarrow>
      CHR ''@'' \<in> set (strip (lower (py_str v))) \<and>
      CHR ''.'' \<in> set (strip (lower (py_str v)))) \<and>
   (''date'' \<in> set (value_patterns v) \<longleftrightarrow>
      (\<exists>c \<in> set (strip (lower (py_str v))). isdigit c) \<and>
      8 \<le> length (strip (lower (py_str v)))) \<and>
   (''location'' \<in> set (value_patterns v) \<longleftrightarrow>
      (\<exists>k \<in> set [''street'', ''avenue'', ''road'', ''lane'', ''city'', ''country'', ''state''].
         \<exists>p q. strip (lower (py_str v)) = p @ k @ q)) \<and>
   (''name'' \<in> set (value_patterns v) \<longleftrightarrow>
      (\<exists>k \<in> set [''mr'', ''mrs'', ''ms'', ''dr'', ''prof''].
         \<exists>p q. strip (lower (py_str v)) = p @ k @ q)) \<and>
   set (value_patterns v) \<subseteq> {''email'', ''date'', ''location'', ''name''} \<and>
   ''email'' \<in> set (value_patterns (PyStr ''john@example.com'')) \<and>
   ''location'' \<in> set (value_patterns (PyStr ''123 Main Street'')) \<and>
   ''date'' \<notin> set (value_patterns (PyStr ''42'')) \<and>
   ''date'' \<notin> set (value_patterns (PyInt 42))"
  using email_rule[of v] date_rule[of v] location_rule[of v] name_rule[of v] tags_closed[of v]
  by (simp only: example_email example_location example_short example_short_int, simp)

lemma dict_list_append:
  "dict_list (dict_append k x d) k' = (if k' = k then dict_list d k @ [x] else dict_list d k')"
  by (induction d) (auto simp: dict_list_def)

lemma dict_list_append_all:
  "dict_list (foldl (\<lambda>fp pattern. dict_append f pattern fp) fp ps) k =
     (if k = f then dict_list fp f @ ps else dict_list fp k)"
  by (induction ps arbitrary: fp) (simp_all add: dict_list_append)

lemma update_field_patterns_appends:
  "dict_list (update_field_patterns f v fp) k =
     (if k = f then dict_list fp f @ value_patterns v else dict_list fp k)"
  by (simp add: update_field_patterns_def dict_list_append_all)

text \<open>
  Claim C7. \<^verbatim>\<open>_update_field_patterns\<close> appends the tags of the value, in order, to the
  history of the field and leaves the history of every other field as it was. On the
  lowered and stripped text of the value, the tags follow four independent rules:
  \<^verbatim>\<open>email\<close> exactly when the text holds both \<^verbatim>\<open>@\<close> and a dot;
  \<^verbatim>\<open>date\<close> exactly when it holds a digit and has at least 8 characters;
  \<^verbatim>\<open>location\<close> exactly when one of street, avenue, road, lane, city, country, state
  occurs in it; \<^verbatim>\<open>name\<close> exactly when one of mr, mrs, ms, dr, prof occurs in it; no
  other tag is produced. The value \<^verbatim>\<open>john@example.com\<close> is tagged \<^verbatim>\<open>email\<close>,
  \<^verbatim>\<open>123 Main Street\<close> is tagged \<^verbatim>\<open>location\<close>, and \<^verbatim>\<open>42\<close> is not tagged \<^verbatim>\<open>date\<close>.
\<close>

theorem pattern_classification:
  "dict_list (update_field_patterns fname v fp) fname = dict_list fp fname @ value_patterns v \<and>
   (other \<noteq> fname \<longrightarrow>
      dict_list (update_field_patterns fname v fp) other = dict_list fp other) \<and>
   (''email'' \<in> set (value_patterns v) \<longleftrightarrow>
      CHR ''@'' \<in> set (strip (lower (py_str v))) \<and>
      CHR ''.'' \<in> set (strip (lower (py_str v)))) \<and>
   (''date'' \<in> set (value_patterns v) \<longleftrightarrow>
      (\<exists>c \<in> set (strip (lower (py_str v))). isdigit c) \<and>
      8 \<le> length (strip (lower (py_str v)))) \<and>
   (''location'' \<in> set (value_patterns v) \<longleftrightarrow>
      (\<exists>k \<in> set [''street'', ''avenue'', ''road'', ''lane'', ''city'', ''country'', ''state''].
         \<exists>p q. strip (lower (py_str v)) = p @ k @ q)) \<and>
   (''name'' \<in> set (value_patterns v) \<longleftrightarrow>
      (\<exists>k \<in> set [''mr'', ''mrs'', ''ms'', ''dr'', ''prof''].
         \<exists>p q. strip (lower (py_str v)) = p @ k @ q)) \<and>
   set (value_patterns v) \<subseteq> {''email'', ''date'', ''location'', ''name''} \<and>
   ''email'' \<in> set (value_patterns (PyStr ''john@example.com'')) \<and>
   ''location'' \<in> set (value_patterns (PyStr ''123 Main Street'')) \<and>
   ''date'' \<notin> set (value_patterns (PyStr ''42'')) \<and>
   ''date'' \<notin> set (value_patterns (PyInt 42))"
proof -
  have own: "dict_list (update_field_patterns fname v fp) fname =
               dict_list fp fname @ value_patterns v"
    by (simp add: update_field_patterns_appends)
  have others: "other \<noteq> fname \<longrightarrow>
      dict_list (update_field_patterns fname v fp) other = dict_list fp other"
    by (simp add: update_field_patterns_appends)
  show ?thesis
    by (rule conjI[OF own conjI[OF others classification_rules]])
qed

theorem pattern_classification_witness:
  "strip (lower (py_str (PyStr ''  Dr. Ada, 12 Mill Road  ''))) = ''dr. ada, 12 mill road'' \<and>
   set (value_patterns (PyStr ''  Dr. Ada, 12 Mill Road  '')) = {''date'', ''location'', ''name''} \<and>
   update_field_patterns ''Author'' (PyStr ''  Dr. Ada, 12 Mill Road  '')
     [(''Title'', [''date'']), (''Author'', [''name''])] =
     [(''Title'', [''date'']), (''Author'', [''name'', ''date'', ''location'', ''name''])] \<and>
   dict_list
     (update_field_patterns ''Author'' (PyStr ''  Dr. Ada, 12 Mill Road  '')
        [(''Title'', [''date'']), (''Author'', [''name''])]) ''Author'' =
     [''name'', ''date'', ''location'', ''name'']"
proof -
  have s: "strip (lower (py_str (PyStr ''  Dr. Ada, 12 Mill Road  ''))) = ''dr. ada, 12 mill road''"
    by (simp add: string_tables)
  have vp: "value_patterns (PyStr ''  Dr. Ada, 12 Mill Road  '') = [''date'', ''location'', ''name'']"
    by (simp add: value_patterns_def Let_def string_tables)
  have u: "update_field_patterns ''Author'' (PyStr ''  Dr. Ada, 12 Mill Road  '')
     [(''Title'', [''date'']), (''Author'', [''name''])] =
     [(''Title'', [''date'']), (''Author'', [''name'', ''date'', ''location'', ''name''])]"
    by (simp add: update_field_patterns_def vp)
  have own: "dict_list
     (update_field_patterns ''Author'' (PyStr ''  Dr. Ada, 12 Mill Road  '')
        [(''Title'', [''date'']), (''Author'', [''name''])]) ''Author'' =
     dict_list [(''Title'', [''date'']), (''Author'', [''name''])] ''Author'' @
     value_patterns (PyStr ''  Dr. Ada, 12 Mill Road  '')"
    by (rule pattern_classification[THEN conjunct1])
  have d: "dict_list
     (update_field_patterns ''Author'' (PyStr ''  Dr. Ada, 12 Mill Road  '')
        [(''Title'', [''date'']), (''Author'', [''name''])]) ''Author'' =
     [''name'', ''date'', ''location'', ''name'']"
    unfolding own by (simp add: vp dict_list_def)
  have v: "set (value_patterns (PyStr ''  Dr. Ada, 12 Mill Road  '')) =
             {''date'', ''location'', ''name''}"
    by (simp add: vp)
  show ?thesis
    by (rule conjI[OF s conjI[OF v conjI[OF u d]]])
qed

lemma learn_fields_fold:
  "learn_fields save flds st =
     (foldl (\<lambda>db (f, v). snd (save f (py_str v) db)) (fst st)
        (filter (\<lambda>(fname, fvalue). truthy fvalue \<and> strip (py_str fvalue) \<noteq> []) flds),
      foldl (\<lambda>fp (f, v). update_field_patterns f v fp) (snd st)
        (filter (\<lambda>(fname, fvalue). truthy fvalue \<and> strip (py_str fvalue) \<noteq> []) flds))"
proof (induction flds arbitrary: st)
  case Nil
  then show ?case by simp
next
  case (Cons fv flds)
  obtain f v where fv: "fv = (f, v)" by (cases fv)
  show ?case
  proof (cases "truthy v \<and> strip (py_str v) \<noteq> []")
    case True
    then show ?thesis using fv Cons.IH by simp
  next
    case False
    then show ?thesis using fv Cons.IH by auto
  qed
qed

lemma learn_sections_fold:
  "learn_sections save md st =
     (foldl (\<lambda>db (f, v). snd (save f (py_str v) db)) (fst st) (kept_fields md),
      foldl (\<lambda>fp (f, v). update_field_patterns f v fp) (snd st) (kept_fields md))"
proof (induction md arbitrary: st)
  case Nil
  then show ?case by (simp add: kept_fields_def)
next
  case (Cons sv md)
  obtain sec v where sv: "sv = (sec, v)" by (cases sv)
  have rest: "kept_fields (sv # md) =
      (case v of
         PyDict flds \<Rightarrow>
           filter (\<lambda>(fname, fvalue). truthy fvalue \<and> strip (py_str fvalue) \<noteq> []) flds
       | _ \<Rightarrow> []) @ kept_fields md"
    using sv by (simp add: kept_fields_def)
  show ?case
  proof (cases v)
    case (PyDict flds)
    then show ?thesis
      using sv rest Cons.IH[of "learn_fields save flds st"] by (simp add: learn_fields_fold)
  next
    case (Scalar x)
    then show ?thesis using sv rest Cons.IH[of st] by simp
  next
    case (PyList x)
    then show ?thesis using sv rest Cons.IH[of st] by simp
  qed
qed

lemma kept_fields_iff:
  "(f, v) \<in> set (kept_fields md) \<longleftrightarrow>
     (\<exists>section flds. (section, PyDict flds) \<in> set md \<and> (f, v) \<in> set flds \<and>
        truthy v \<and> strip (py_str v) \<noteq> [])"
  by (auto simp: kept_fields_def split: pyval.splits) 

lemma learn_sections_skip:
  "learn_sections save md st = learn_sections save (mapping_sections md) st"
  by (induction save md st rule: learn_sections.induct) (simp_all add: mapping_sections_def)


lemma str_nat_0: "str_nat 0 = ''0''"
  by (simp add: str_nat.simps)

text \<open>
  Claim C6, as the code has it. \<^verbatim>\<open>learn_from_metadata\<close> returns \<^verbatim>\<open>True\<close> whatever
  the store's \<^verbatim>\<open>save_metadata_value\<close> answers, and calls it, in order, on exactly the
  kept fields with the text of their value; the same fields feed the pattern history. A
  field of a mapping section is kept exactly when its value is true in a condition (not
  \<^verbatim>\<open>None\<close>, \<^verbatim>\<open>False\<close>, \<^verbatim>\<open>0\<close> or the empty string) and its text is not blank
  after stripping. The result of each store call is dropped, so a failed call neither
  stops the walk nor changes the returned flag.
\<close>

theorem learn_records_kept_fields:
  "learn_from_metadata save md (db, fp) =
     (True,
      foldl (\<lambda>db (f, v). snd (save f (py_str v) db)) db (kept_fields md),
      foldl (\<lambda>fp (f, v). update_field_patterns f v fp) fp (kept_fields md)) \<and>
   ((f, v) \<in> set (kept_fields md) \<longleftrightarrow>
      (\<exists>section flds. (section, PyDict flds) \<in> set md \<and> (f, v) \<in> set flds \<and>
         truthy v \<and> strip (py_str v) \<noteq> []))"
  using kept_fields_iff[of f v md]
  by (simp add: learn_from_metadata_def learn_sections_fold)

theorem learn_records_kept_fields_witness:
  "learn_from_metadata (\<lambda>f v db. save_metadata_value (f \<noteq> ''Artist'') 7 f v db)
     [(''EXIF'', PyDict [(''Artist'', PyStr ''Ann''), (''Note'', PyStr ''  ''), (''Rating'', PyInt 0)]),
      (''Bad'', Scalar (PyStr ''x'')),
      (''Custom'', PyDict [(''Title'', PyStr ''Sunset'')])]
     (init_database, []) =
   (True,
    \<lparr>metadata_learning =
       [\<lparr>row_id = 1, field_name = ''Title'', field_value = ''Sunset'', usage_count = 1,
         last_used = 7, created_at = 7\<rparr>],
     learning_seq = 1, user_preferences = []\<rparr>,
    [])"
  using learn_records_kept_fields
    [of "\<lambda>f v db. save_metadata_value (f \<noteq> ''Artist'') 7 f v db"
        "[(''EXIF'', PyDict [(''Artist'', PyStr ''Ann''), (''Note'', PyStr ''  ''), (''Rating'', PyInt 0)]),
          (''Bad'', Scalar (PyStr ''x'')),
          (''Custom'', PyDict [(''Title'', PyStr ''Sunset'')])]"
        init_database "[]" "''Title''" "PyStr ''Sunset''"]
  by (simp add: kept_fields_def init_database_def save_metadata_value_def
        update_field_patterns_def value_patterns_def Let_def string_tables)

text \<open>
  The number \<^verbatim>\<open>0\<close> has the text \<^verbatim>\<open>0\<close>, which is not blank, yet a field holding it is
  skipped: nothing is recorded and the pattern history stays empty.
\<close>

theorem learn_skips_zero_counterexample:
  "strip (py_str (PyInt 0)) = ''0'' \<and>
   learn_from_metadata (save_metadata_value True 7)
     [(''Custom'', PyDict [(''Rating'', PyInt 0)])] (init_database, []) =
   (True, init_database, [])"
  by (simp add: learn_from_metadata_def str_nat_0 strip_def isspace_def whitespace_def)

lemma model_history:
  "save_all [3, 10] ''Model'' ''EOS'' init_database =
     \<lparr>metadata_learning =
        [\<lparr>row_id = 1, field_name = ''Model'', field_value = ''EOS'', usage_count = 2,
          last_used = 10, created_at = 3\<rparr>],
      learning_seq = 1, user_preferences = []\<rparr>"
  by (simp add: save_all_def init_database_def save_metadata_value_def)

lemma model_query:
  "store_query (save_all [3, 10] ''Model'' ''EOS'' init_database) fname limit =
     (if fname = ''Model'' \<and> limit \<noteq> 0
      then [\<lparr>sg_value = ''EOS'', sg_usage_count = 2, sg_last_used = 10\<rparr>] else [])"
  by (auto simp add: store_query_def get_field_suggestions_def model_history sql_limit_def
        to_suggestion_def)

text \<open>
  Claim C10. A section that is not a mapping is to be skipped without any effect on the
  result. With a store that holds history for \<^verbatim>\<open>Model\<close>, the record
  \<^verbatim>\<open>{"EXIF": 5, "Custom": {"Make": "Canon"}}\<close> gets no suggestion at all from
  \<^verbatim>\<open>get_suggestions\<close>, while the same record without its \<^verbatim>\<open>EXIF\<close> entry gets the
  \<^verbatim>\<open>Model\<close> suggestion: the membership test on \<^verbatim>\<open>current_metadata.get('EXIF', {})\<close>
  raises on the number, and the handler of \<^verbatim>\<open>_get_contextual_suggestions\<close> answers
  with the empty dictionary.
\<close>

theorem non_mapping_exif_changes_suggestions:
  "get_suggestions (store_query (save_all [3, 10] ''Model'' ''EOS'' init_database))
     [(''EXIF'', Scalar (PyInt 5)), (''Custom'', PyDict [(''Make'', PyStr ''Canon'')])] = [] \<and>
   get_suggestions (store_query (save_all [3, 10] ''Model'' ''EOS'' init_database))
     (mapping_sections
        [(''EXIF'', Scalar (PyInt 5)), (''Custom'', PyDict [(''Make'', PyStr ''Canon'')])]) =
     [(''Model'', [\<lparr>sg_value = ''EOS'', sg_usage_count = 2, sg_last_used = 10\<rparr>])]"
  by (simp add: get_suggestions_def get_contextual_suggestions_def analyze_metadata_patterns_def
        analyze_field_def suggest_related_def dict_get_def dict_update_def mapping_sections_def
        model_query strip_def isspace_def whitespace_def Let_def)

section \<open>Properties of the popular values\<close>



lemma pair_le_iff:
  "((a::int, b::int) \<le> (c, d)) \<longleftrightarrow> (a < c \<or> (a = c \<and> b \<le> d))"
  by (auto simp: less_eq_prod_def)






section \<open>Properties of the preferences\<close>

lemma find_after_replace:
  "find (\<lambda>r. preference_key r = key)
     (filter (\<lambda>r. preference_key r \<noteq> key) rows @
        [\<lparr>preference_key = key, preference_value = text, updated_at = now\<rparr>]) =
   Some \<lparr>preference_key = key, preference_value = text, updated_at = now\<rparr>"
  by (induction rows) auto

lemma get_after_save_scalar:
  "get_user_preference True json_loads key dflt
     (snd (save_user_preference True now json_dumps key (Scalar s) db)) =
   (case json_loads (py_str s) of
      Decoded v \<Rightarrow> v
    | JSONDecodeError \<Rightarrow> Scalar (PyStr (py_str s))
    | OtherError \<Rightarrow> dflt)"
  by (simp add: get_user_preference_def save_user_preference_def find_after_replace
        split: decoded.split)

text \<open>
  Claim C9. Reading a preference back is to give the value that was stored. A scalar is
  written as \<^verbatim>\<open>str(value)\<close>, so the boolean \<^verbatim>\<open>True\<close> is stored as the text
  \<^verbatim>\<open>True\<close>: reading it back gives what \<^verbatim>\<open>json.loads\<close> makes of that text, which
  is not JSON, so the decoder raises \<^verbatim>\<open>JSONDecodeError\<close> and the string \<^verbatim>\<open>"True"\<close> is
  returned; and the boolean and the string
  \<^verbatim>\<open>"True"\<close> are read back as the same value, whatever the decoder does, so one of
  the two is not returned as it was stored.
\<close>

theorem preference_bool_read_as_text:
  "get_user_preference True json_loads key dflt
     (snd (save_user_preference True now json_dumps key (Scalar (PyBool True)) db)) =
   (case json_loads ''True'' of
      Decoded v \<Rightarrow> v
    | JSONDecodeError \<Rightarrow> Scalar (PyStr ''True'')
    | OtherError \<Rightarrow> dflt) \<and>
   get_user_preference True json_loads key dflt
     (snd (save_user_preference True now json_dumps key (Scalar (PyStr ''True'')) db)) =
   get_user_preference True json_loads key dflt
     (snd (save_user_preference True now json_dumps key (Scalar (PyBool True)) db))"
  by (simp add: get_after_save_scalar split: decoded.split)

section \<open>Properties of the contextual suggestions\<close>

lemma keys_dict_append:
  "set (map fst (dict_append k x d)) = insert k (set (map fst d))"
  by (induction d) auto

lemma distinct_dict_append:
  "distinct (map fst d) \<Longrightarrow> distinct (map fst (dict_append k x d))"
  by (induction d) (auto simp: keys_dict_append[simplified])

lemma map_of_dict_set:
  "map_of (dict_set k v d) k' = (if k' = k then Some v else map_of d k')"
  by (induction d) auto

lemma keys_dict_set:
  "set (map fst (dict_set k v d)) = insert k (set (map fst d))"
  by (induction d) auto

lemma distinct_dict_set:
  "distinct (map fst d) \<Longrightarrow> distinct (map fst (dict_set k v d))"
  by (induction d) (auto simp: keys_dict_set[simplified])

lemma distinct_analyze_field:
  "distinct (map fst P) \<Longrightarrow> distinct (map fst (analyze_field f P))"
  by (simp add: analyze_field_def Let_def distinct_dict_append)

lemma distinct_analyze_fields:
  "distinct (map fst P) \<Longrightarrow> distinct (map fst (analyze_fields flds P))"
  by (induction flds P rule: analyze_fields.induct) (simp_all add: distinct_analyze_field)

lemma distinct_analyze_sections:
  "distinct (map fst P) \<Longrightarrow> distinct (map fst (analyze_sections md P))"
  by (induction md P rule: analyze_sections.induct) (simp_all add: distinct_analyze_fields)

lemma analyze_field_tracked:
  assumes "tracked k n"
  shows "n \<in> set (dict_list (analyze_field f P) k) \<longleftrightarrow> n \<in> set (dict_list P k) \<or> f = n"
  using assms unfolding tracked_def
  by (elim disjE conjE) (simp_all add: analyze_field_def Let_def dict_list_append)

lemma analyze_fields_tracked:
  assumes "tracked k n"
  shows "n \<in> set (dict_list (analyze_fields flds P) k) \<longleftrightarrow>
           n \<in> set (dict_list P k) \<or> list_ex (\<lambda>(fname, fvalue). fname = n \<and> truthy fvalue) flds"
proof (induction flds arbitrary: P)
  case Nil
  then show ?case by simp
next
  case (Cons fv flds)
  obtain f v where fv: "fv = (f, v)" by (cases fv)
  show ?case
  proof (cases "truthy v")
    case True
    have "n \<in> set (dict_list (analyze_fields (fv # flds) P) k) \<longleftrightarrow>
            n \<in> set (dict_list (analyze_field f P) k) \<or>
            list_ex (\<lambda>(fname, fvalue). fname = n \<and> truthy fvalue) flds"
      using True fv Cons.IH[of "analyze_field f P"] by simp
    also have "\<dots> \<longleftrightarrow> (n \<in> set (dict_list P k) \<or> f = n) \<or>
            list_ex (\<lambda>(fname, fvalue). fname = n \<and> truthy fvalue) flds"
      by (simp only: analyze_field_tracked[OF assms])
    also have "\<dots> \<longleftrightarrow> n \<in> set (dict_list P k) \<or>
            list_ex (\<lambda>(fname, fvalue). fname = n \<and> truthy fvalue) (fv # flds)"
      using True fv by auto
    finally show ?thesis .
  next
    case False
    then show ?thesis using fv Cons.IH[of P] by simp
  qed
qed

lemma analyze_sections_tracked:
  assumes "tracked k n"
  shows "n \<in> set (dict_list (analyze_sections md P) k) \<longleftrightarrow>
           n \<in> set (dict_list P k) \<or> has_field n md"
proof (induction md arbitrary: P)
  case Nil
  then show ?case by (simp add: has_field_def)
next
  case (Cons sv md)
  obtain sec v where sv: "sv = (sec, v)" by (cases sv)
  show ?case
  proof (cases v)
    case (PyDict flds)
    have "has_field n (sv # md) \<longleftrightarrow>
            list_ex (\<lambda>(fname, fvalue). fname = n \<and> truthy fvalue) flds \<or> has_field n md"
      using sv PyDict by (simp add: has_field_def)
    then show ?thesis
      using sv PyDict Cons.IH[of "analyze_fields flds P"] analyze_fields_tracked[OF assms, of flds P]
      by simp
  next
    case (Scalar x)
    then show ?thesis using sv Cons.IH[of P] by (simp add: has_field_def)
  next
    case (PyList x)
    then show ?thesis using sv Cons.IH[of P] by (simp add: has_field_def)
  qed
qed

lemma patterns_tracked:
  assumes "tracked k n"
  shows "n \<in> set (dict_list (analyze_metadata_patterns md) k) \<longleftrightarrow> has_field n md"
  using analyze_sections_tracked[OF assms, of md "[]"]
  by (simp add: analyze_metadata_patterns_def dict_list_def)

lemma distinct_patterns: "distinct (map fst (analyze_metadata_patterns md))"
  by (simp add: analyze_metadata_patterns_def distinct_analyze_sections)

lemma entry_dict_list:
  "distinct (map fst P) \<Longrightarrow> (k, l) \<in> set P \<Longrightarrow> dict_list P k = l"
  by (simp add: dict_list_def)

lemma dict_list_entry:
  "n \<in> set (dict_list P k) \<Longrightarrow> (k, dict_list P k) \<in> set P"
  by (auto simp: dict_list_def split: option.splits dest: map_of_SomeD)

lemma suggest_related_mapping:
  assumes "dict_get md ''EXIF'' = PyDict exif"
  shows "suggest_related q md trigger target flds cs =
           Inr (if trigger \<in> set flds \<and> target \<notin> set (map fst exif) \<and> q target 3 \<noteq> []
                then dict_set target (q target 3) cs else cs)"
  by (simp add: suggest_related_def assms Let_def)

lemma contextual_loop_Cons:
  assumes "dict_get md ''EXIF'' = PyDict exif"
  shows "contextual_loop q md ((pattern, flds) # ps) cs =
     contextual_loop q md ps
       (if pattern = ''camera_info'' \<and> ''Make'' \<in> set flds \<and>
           ''Model'' \<notin> set (map fst exif) \<and> q ''Model'' 3 \<noteq> []
        then dict_set ''Model'' (q ''Model'' 3) cs
        else if pattern = ''location_info'' \<and> ''GPSLatitude'' \<in> set flds \<and>
           ''GPSLongitude'' \<in> set flds \<and> q ''Location'' 3 \<noteq> []
        then dict_set ''Location'' (q ''Location'' 3) cs
        else if pattern = ''author_info'' \<and> ''Artist'' \<in> set flds \<and>
           ''Copyright'' \<notin> set (map fst exif) \<and> q ''Copyright'' 3 \<noteq> []
        then dict_set ''Copyright'' (q ''Copyright'' 3) cs
        else cs)"
  by (simp add: suggest_related_mapping[OF assms] Let_def)

lemma contextual_loop_mapping:
  assumes "dict_get md ''EXIF'' = PyDict exif"
  shows "\<exists>cs'. contextual_loop q md ps cs = Inr cs' \<and>
     (distinct (map fst cs) \<longrightarrow> distinct (map fst cs')) \<and>
     map_of cs' ''Model'' =
       (if (\<exists>flds. (''camera_info'', flds) \<in> set ps \<and> ''Make'' \<in> set flds) \<and>
           ''Model'' \<notin> set (map fst exif) \<and> q ''Model'' 3 \<noteq> []
        then Some (q ''Model'' 3) else map_of cs ''Model'') \<and>
     map_of cs' ''Location'' =
       (if (\<exists>flds. (''location_info'', flds) \<in> set ps \<and> ''GPSLatitude'' \<in> set flds \<and>
              ''GPSLongitude'' \<in> set flds) \<and> q ''Location'' 3 \<noteq> []
        then Some (q ''Location'' 3) else map_of cs ''Location'') \<and>
     map_of cs' ''Copyright'' =
       (if (\<exists>flds. (''author_info'', flds) \<in> set ps \<and> ''Artist'' \<in> set flds) \<and>
           ''Copyright'' \<notin> set (map fst exif) \<and> q ''Copyright'' 3 \<noteq> []
        then Some (q ''Copyright'' 3) else map_of cs ''Copyright'') \<and>
     (\<forall>k. k \<noteq> ''Model'' \<and> k \<noteq> ''Location'' \<and> k \<noteq> ''Copyright'' \<longrightarrow>
          map_of cs' k = map_of cs k)"
proof (induction ps arbitrary: cs)
  case Nil
  then show ?case by simp
next
  case (Cons p ps)
  obtain pattern flds where p: "p = (pattern, flds)" by (cases p)
  let ?cs1 = "(if pattern = ''camera_info'' \<and> ''Make'' \<in> set flds \<and>
           ''Model'' \<notin> set (map fst exif) \<and> q ''Model'' 3 \<noteq> []
        then dict_set ''Model'' (q ''Model'' 3) cs
        else if pattern = ''location_info'' \<and> ''GPSLatitude'' \<in> set flds \<and>
           ''GPSLongitude'' \<in> set flds \<and> q ''Location'' 3 \<noteq> []
        then dict_set ''Location'' (q ''Location'' 3) cs
        else if pattern = ''author_info'' \<and> ''Artist'' \<in> set flds \<and>
           ''Copyright'' \<notin> set (map fst exif) \<and> q ''Copyright'' 3 \<noteq> []
        then dict_set ''Copyright'' (q ''Copyright'' 3) cs
        else cs)"
  have step: "contextual_loop q md (p # ps) cs = contextual_loop q md ps ?cs1"
    unfolding p by (rule contextual_loop_Cons[OF assms])
  have d1: "distinct (map fst cs) \<longrightarrow> distinct (map fst ?cs1)"
    by (simp add: distinct_dict_set)
  have m1: "map_of ?cs1 ''Model'' =
       (if pattern = ''camera_info'' \<and> ''Make'' \<in> set flds \<and>
           ''Model'' \<notin> set (map fst exif) \<and> q ''Model'' 3 \<noteq> []
        then Some (q ''Model'' 3) else map_of cs ''Model'')"
    by (simp add: map_of_dict_set)
  have l1: "map_of ?cs1 ''Location'' =
       (if pattern = ''location_info'' \<and> ''GPSLatitude'' \<in> set flds \<and>
           ''GPSLongitude'' \<in> set flds \<and> q ''Location'' 3 \<noteq> []
        then Some (q ''Location'' 3) else map_of cs ''Location'')"
    by (simp add: map_of_dict_set)
  have c1: "map_of ?cs1 ''Copyright'' =
       (if pattern = ''author_info'' \<and> ''Artist'' \<in> set flds \<and>
           ''Copyright'' \<notin> set (map fst exif) \<and> q ''Copyright'' 3 \<noteq> []
        then Some (q ''Copyright'' 3) else map_of cs ''Copyright'')"
    by (simp add: map_of_dict_set)
  have o1: "\<forall>k. k \<noteq> ''Model'' \<and> k \<noteq> ''Location'' \<and> k \<noteq> ''Copyright'' \<longrightarrow>
          map_of ?cs1 k = map_of cs k"
    by (simp add: map_of_dict_set)
  from Cons.IH[of ?cs1] obtain cs' where
    r: "contextual_loop q md ps ?cs1 = Inr cs'" and
    d: "distinct (map fst ?cs1) \<longrightarrow> distinct (map fst cs')" and
    m: "map_of cs' ''Model'' =
       (if (\<exists>flds. (''camera_info'', flds) \<in> set ps \<and> ''Make'' \<in> set flds) \<and>
           ''Model'' \<notin> set (map fst exif) \<and> q ''Model'' 3 \<noteq> []
        then Some (q ''Model'' 3) else map_of ?cs1 ''Model'')" and
    l: "map_of cs' ''Location'' =
       (if (\<exists>flds. (''location_info'', flds) \<in> set ps \<and> ''GPSLatitude'' \<in> set flds \<and>
              ''GPSLongitude'' \<in> set flds) \<and> q ''Location'' 3 \<noteq> []
        then Some (q ''Location'' 3) else map_of ?cs1 ''Location'')" and
    c: "map_of cs' ''Copyright'' =
       (if (\<exists>flds. (''author_info'', flds) \<in> set ps \<and> ''Artist'' \<in> set flds) \<and>
           ''Copyright'' \<notin> set (map fst exif) \<and> q ''Copyright'' 3 \<noteq> []
        then Some (q ''Copyright'' 3) else map_of ?cs1 ''Copyright'')" and
    o: "\<forall>k. k \<noteq> ''Model'' \<and> k \<noteq> ''Location'' \<and> k \<noteq> ''Copyright'' \<longrightarrow>
          map_of cs' k = map_of ?cs1 k"
    by blast
  have "contextual_loop q md (p # ps) cs = Inr cs'" using step r by simp
  moreover have "distinct (map fst cs) \<longrightarrow> distinct (map fst cs')" using d d1 by blast
  moreover have "map_of cs' ''Model'' =
       (if (\<exists>flds. (''camera_info'', flds) \<in> set (p # ps) \<and> ''Make'' \<in> set flds) \<and>
           ''Model'' \<notin> set (map fst exif) \<and> q ''Model'' 3 \<noteq> []
        then Some (q ''Model'' 3) else map_of cs ''Model'')"
    unfolding m m1 p by auto
  moreover have "map_of cs' ''Location'' =
       (if (\<exists>flds. (''location_info'', flds) \<in> set (p # ps) \<and> ''GPSLatitude'' \<in> set flds \<and>
              ''GPSLongitude'' \<in> set flds) \<and> q ''Location'' 3 \<noteq> []
        then Some (q ''Location'' 3) else map_of cs ''Location'')"
    unfolding l l1 p by auto
  moreover have "map_of cs' ''Copyright'' =
       (if (\<exists>flds. (''author_info'', flds) \<in> set (p # ps) \<and> ''Artist'' \<in> set flds) \<and>
           ''Copyright'' \<notin> set (map fst exif) \<and> q ''Copyright'' 3 \<noteq> []
        then Some (q ''Copyright'' 3) else map_of cs ''Copyright'')"
    unfolding c c1 p by auto
  moreover have "\<forall>k. k \<noteq> ''Model'' \<and> k \<noteq> ''Location'' \<and> k \<noteq> ''Copyright'' \<longrightarrow>
          map_of cs' k = map_of cs k"
    using o o1 by simp
  ultimately show ?case by blast
qed

lemma dict_update_lookup:
  "distinct (map fst other) \<Longrightarrow>
   map_of (dict_update d other) k =
     (case map_of other k of Some v \<Rightarrow> Some v | None \<Rightarrow> map_of d k)"
proof (induction other arbitrary: d)
  case Nil
  then show ?case by (simp add: dict_update_def)
next
  case (Cons kv other)
  have unfold: "dict_update d (kv # other) = dict_update (dict_set (fst kv) (snd kv) d) other"
    by (simp add: dict_update_def)
  have notin: "map_of other (fst kv) = None"
    using Cons.prems by (simp add: map_of_eq_None_iff)
  have "distinct (map fst other)" using Cons.prems by simp
  from Cons.IH[OF this, of "dict_set (fst kv) (snd kv) d"] show ?case
    unfolding unfold using notin by (cases kv) (auto simp: map_of_dict_set split: option.splits)
qed

lemma tracked_entry:
  assumes "tracked k n"
  shows "(\<exists>flds. (k, flds) \<in> set (analyze_metadata_patterns md) \<and> n \<in> set flds) \<longleftrightarrow>
           has_field n md"
  using entry_dict_list[OF distinct_patterns, of k _ md] dict_list_entry[of n "analyze_metadata_patterns md" k]
    patterns_tracked[OF assms, of md]
  by blast

lemma tracked_entry2:
  assumes "tracked k n" and "tracked k n'"
  shows "(\<exists>flds. (k, flds) \<in> set (analyze_metadata_patterns md) \<and> n \<in> set flds \<and> n' \<in> set flds)
           \<longleftrightarrow> has_field n md \<and> has_field n' md"
  using entry_dict_list[OF distinct_patterns, of k _ md] dict_list_entry[of n "analyze_metadata_patterns md" k]
    patterns_tracked[OF assms(1), of md] patterns_tracked[OF assms(2), of md]
  by blast

lemma store_limit: "length (get_field_suggestions ok fname 3 db) \<le> 3"
  by (simp add: get_field_suggestions_def sql_limit_def)

text \<open>
  What \<^verbatim>\<open>_get_contextual_suggestions\<close> computes for a record whose \<^verbatim>\<open>EXIF\<close> entry is
  a mapping or is missing, with any store: \<^verbatim>\<open>Model\<close> is suggested exactly when some
  mapping section holds a \<^verbatim>\<open>Make\<close> field with a true value, the \<^verbatim>\<open>EXIF\<close> section has
  no key \<^verbatim>\<open>Model\<close> and the store's answer for \<^verbatim>\<open>Model\<close> with limit 3 is not empty;
  \<^verbatim>\<open>Location\<close> exactly when \<^verbatim>\<open>GPSLatitude\<close> and \<^verbatim>\<open>GPSLongitude\<close> are both held
  with true values and the store's answer is not empty; \<^verbatim>\<open>Copyright\<close> exactly when
  \<^verbatim>\<open>Artist\<close> is held with a true value, \<^verbatim>\<open>EXIF\<close> has no key \<^verbatim>\<open>Copyright\<close> and the
  store's answer is not empty. The suggested list is the store's answer, no other key is
  added, every contextual entry is the entry of the final map of \<^verbatim>\<open>get_suggestions\<close>,
  and the store answers a query of limit 3 with at most 3 entries.
\<close>

theorem contextual_suggestion_rules:
  assumes "dict_get md ''EXIF'' = PyDict exif"
  shows
  "map_of (get_contextual_suggestions q md) ''Model'' =
     (if has_field ''Make'' md \<and> ''Model'' \<notin> set (map fst exif) \<and> q ''Model'' 3 \<noteq> []
      then Some (q ''Model'' 3) else None) \<and>
   map_of (get_contextual_suggestions q md) ''Location'' =
     (if has_field ''GPSLatitude'' md \<and> has_field ''GPSLongitude'' md \<and> q ''Location'' 3 \<noteq> []
      then Some (q ''Location'' 3) else None) \<and>
   map_of (get_contextual_suggestions q md) ''Copyright'' =
     (if has_field ''Artist'' md \<and> ''Copyright'' \<notin> set (map fst exif) \<and> q ''Copyright'' 3 \<noteq> []
      then Some (q ''Copyright'' 3) else None) \<and>
   set (map fst (get_contextual_suggestions q md)) \<subseteq> {''Model'', ''Location'', ''Copyright''} \<and>
   (\<forall>k v. map_of (get_contextual_suggestions q md) k = Some v \<longrightarrow>
          map_of (get_suggestions q md) k = Some v) \<and>
   length (get_field_suggestions ok fname 3 db) \<le> 3"
proof -
  let ?P = "analyze_metadata_patterns md"
  let ?e = "[] :: (string \<times> suggestion list) list"
  from contextual_loop_mapping[OF assms, of q ?P ?e] obtain cs' where all:
    "contextual_loop q md ?P ?e = Inr cs' \<and>
     (distinct (map fst ?e) \<longrightarrow> distinct (map fst cs')) \<and>
     map_of cs' ''Model'' =
       (if (\<exists>flds. (''camera_info'', flds) \<in> set ?P \<and> ''Make'' \<in> set flds) \<and>
           ''Model'' \<notin> set (map fst exif) \<and> q ''Model'' 3 \<noteq> []
        then Some (q ''Model'' 3) else map_of ?e ''Model'') \<and>
     map_of cs' ''Location'' =
       (if (\<exists>flds. (''location_info'', flds) \<in> set ?P \<and> ''GPSLatitude'' \<in> set flds \<and>
              ''GPSLongitude'' \<in> set flds) \<and> q ''Location'' 3 \<noteq> []
        then Some (q ''Location'' 3) else map_of ?e ''Location'') \<and>
     map_of cs' ''Copyright'' =
       (if (\<exists>flds. (''author_info'', flds) \<in> set ?P \<and> ''Artist'' \<in> set flds) \<and>
           ''Copyright'' \<notin> set (map fst exif) \<and> q ''Copyright'' 3 \<noteq> []
        then Some (q ''Copyright'' 3) else map_of ?e ''Copyright'') \<and>
     (\<forall>k. k \<noteq> ''Model'' \<and> k \<noteq> ''Location'' \<and> k \<noteq> ''Copyright'' \<longrightarrow>
          map_of cs' k = map_of ?e k)" ..
  note r = all[THEN conjunct1]
  note d0 = all[THEN conjunct2, THEN conjunct1]
  note m0 = all[THEN conjunct2, THEN conjunct2, THEN conjunct1]
  note l0 = all[THEN conjunct2, THEN conjunct2, THEN conjunct2, THEN conjunct1]
  note c0 = all[THEN conjunct2, THEN conjunct2, THEN conjunct2, THEN conjunct2, THEN conjunct1]
  note o0 = all[THEN conjunct2, THEN conjunct2, THEN conjunct2, THEN conjunct2, THEN conjunct2]
  have d: "distinct (map fst cs')" using d0 by simp
  have t1: "tracked ''camera_info'' ''Make''" and t2: "tracked ''location_info'' ''GPSLatitude''"
    and t3: "tracked ''location_info'' ''GPSLongitude''" and t4: "tracked ''author_info'' ''Artist''"
    by (simp_all add: tracked_def)
  have m': "map_of cs' ''Model'' =
     (if has_field ''Make'' md \<and> ''Model'' \<notin> set (map fst exif) \<and> q ''Model'' 3 \<noteq> []
      then Some (q ''Model'' 3) else None)"
    using m0 by (simp only: tracked_entry[OF t1] map_of.simps)
  have l': "map_of cs' ''Location'' =
     (if has_field ''GPSLatitude'' md \<and> has_field ''GPSLongitude'' md \<and> q ''Location'' 3 \<noteq> []
      then Some (q ''Location'' 3) else None)"
    using l0 by (simp only: tracked_entry2[OF t2 t3] map_of.simps conj_assoc)
  have c': "map_of cs' ''Copyright'' =
     (if has_field ''Artist'' md \<and> ''Copyright'' \<notin> set (map fst exif) \<and> q ''Copyright'' 3 \<noteq> []
      then Some (q ''Copyright'' 3) else None)"
    using c0 by (simp only: tracked_entry[OF t4] map_of.simps)
  have o: "\<And>k. map_of cs' k \<noteq> None \<Longrightarrow> k = ''Model'' \<or> k = ''Location'' \<or> k = ''Copyright''"
  proof (rule ccontr)
    fix k assume some: "map_of cs' k \<noteq> None"
      and neg: "\<not> (k = ''Model'' \<or> k = ''Location'' \<or> k = ''Copyright'')"
    from neg have "k \<noteq> ''Model'' \<and> k \<noteq> ''Location'' \<and> k \<noteq> ''Copyright''" by simp
    with o0[THEN spec, of k] have "map_of cs' k = map_of ?e k" by (rule mp)
    then show False using some by (simp only: map_of.simps)
  qed
  have ctx: "get_contextual_suggestions q md = cs'"
    using r by (simp add: get_contextual_suggestions_def)
  have keys: "set (map fst cs') \<subseteq> {''Model'', ''Location'', ''Copyright''}"
  proof
    fix k assume "k \<in> set (map fst cs')"
    then have "map_of cs' k \<noteq> None" by (simp add: map_of_eq_None_iff)
    then have "k = ''Model'' \<or> k = ''Location'' \<or> k = ''Copyright''" by (rule o)
    then show "k \<in> {''Model'', ''Location'', ''Copyright''}" by (simp only: insert_iff empty_iff simp_thms)
  qed
  have final: "\<forall>k v. map_of cs' k = Some v \<longrightarrow> map_of (get_suggestions q md) k = Some v"
    using dict_update_lookup[OF d] by (simp add: get_suggestions_def ctx Let_def)
  show ?thesis
    unfolding ctx
    apply (intro conjI)
         apply (rule m')
        apply (rule l')
       apply (rule c')
      apply (rule keys)
     apply (rule final)
    apply (rule store_limit)
    done
qed

theorem contextual_suggestion_rules_witness:
  "dict_get
     [(''EXIF'', PyDict [(''Make'', PyStr ''Canon''), (''Artist'', PyStr ''Ann''),
                         (''Copyright'', PyStr ''Ann 2024'')]),
      (''GPS'', PyDict [(''GPSLatitude'', PyStr ''52.1''), (''GPSLongitude'', PyStr ''4.3'')])]
     ''EXIF'' =
     PyDict [(''Make'', PyStr ''Canon''), (''Artist'', PyStr ''Ann''),
             (''Copyright'', PyStr ''Ann 2024'')] \<and>
   get_contextual_suggestions (store_query (save_all [3, 10] ''Model'' ''EOS'' init_database))
     [(''EXIF'', PyDict [(''Make'', PyStr ''Canon''), (''Artist'', PyStr ''Ann''),
                         (''Copyright'', PyStr ''Ann 2024'')]),
      (''GPS'', PyDict [(''GPSLatitude'', PyStr ''52.1''), (''GPSLongitude'', PyStr ''4.3'')])] =
     [(''Model'', [\<lparr>sg_value = ''EOS'', sg_usage_count = 2, sg_last_used = 10\<rparr>])] \<and>
   map_of
     (get_suggestions (store_query (save_all [3, 10] ''Model'' ''EOS'' init_database))
        [(''EXIF'', PyDict [(''Make'', PyStr ''Canon''), (''Artist'', PyStr ''Ann''),
                            (''Copyright'', PyStr ''Ann 2024'')]),
         (''GPS'', PyDict [(''GPSLatitude'', PyStr ''52.1''), (''GPSLongitude'', PyStr ''4.3'')])])
     ''Model'' =
     Some [\<lparr>sg_value = ''EOS'', sg_usage_count = 2, sg_last_used = 10\<rparr>]"
proof -
  let ?md = "[(''EXIF'', PyDict [(''Make'', PyStr ''Canon''), (''Artist'', PyStr ''Ann''),
                         (''Copyright'', PyStr ''Ann 2024'')]),
      (''GPS'', PyDict [(''GPSLatitude'', PyStr ''52.1''), (''GPSLongitude'', PyStr ''4.3'')])]"
  let ?q = "store_query (save_all [3, 10] ''Model'' ''EOS'' init_database)"
  have h: "dict_get ?md ''EXIF'' =
     PyDict [(''Make'', PyStr ''Canon''), (''Artist'', PyStr ''Ann''),
             (''Copyright'', PyStr ''Ann 2024'')]"
    by (simp add: dict_get_def)
  have e: "get_contextual_suggestions ?q ?md =
     [(''Model'', [\<lparr>sg_value = ''EOS'', sg_usage_count = 2, sg_last_used = 10\<rparr>])]"
    by (simp add: get_contextual_suggestions_def analyze_metadata_patterns_def
          analyze_field_def suggest_related_def dict_get_def model_query Let_def)
  note rules = contextual_suggestion_rules[OF h, of ?q]
  note final = rules[THEN conjunct2, THEN conjunct2, THEN conjunct2, THEN conjunct2,
      THEN conjunct1, THEN spec, THEN spec, THEN mp]
  have g: "map_of (get_suggestions ?q ?md) ''Model'' =
     Some [\<lparr>sg_value = ''EOS'', sg_usage_count = 2, sg_last_used = 10\<rparr>]"
    by (rule final) (simp add: e)
  show ?thesis using h e g by (intro conjI)
qed

text \<open>
  Claim C4. A \<^verbatim>\<open>Model\<close> list is to be added when \<^verbatim>\<open>Make\<close> is set and \<^verbatim>\<open>Model\<close> is
  absent or empty in the \<^verbatim>\<open>EXIF\<close> section, and the store's answer is not empty. On the
  record \<^verbatim>\<open>{"EXIF": {"Make": "Canon", "Model": ""}}\<close>, with a store that holds history
  for \<^verbatim>\<open>Model\<close>, \<^verbatim>\<open>Make\<close> is set and \<^verbatim>\<open>Model\<close> is empty, yet nothing is added: the
  test \<^verbatim>\<open>'Model' not in current_metadata.get('EXIF', {})\<close> looks at the key only, where
  \<^verbatim>\<open>get_field_recommendations\<close> asks \<^verbatim>\<open>field not in section or not section[field]\<close>.
\<close>

theorem empty_model_gets_no_suggestion:
  "store_query (save_all [3, 10] ''Model'' ''EOS'' init_database) ''Model'' 3 =
     [\<lparr>sg_value = ''EOS'', sg_usage_count = 2, sg_last_used = 10\<rparr>] \<and>
   has_field ''Make'' [(''EXIF'', PyDict [(''Make'', PyStr ''Canon''), (''Model'', PyStr [])])] \<and>
   get_contextual_suggestions (store_query (save_all [3, 10] ''Model'' ''EOS'' init_database))
     [(''EXIF'', PyDict [(''Make'', PyStr ''Canon''), (''Model'', PyStr [])])] = [] \<and>
   get_suggestions (store_query (save_all [3, 10] ''Model'' ''EOS'' init_database))
     [(''EXIF'', PyDict [(''Make'', PyStr ''Canon''), (''Model'', PyStr [])])] = []"
  by (simp add: get_suggestions_def get_contextual_suggestions_def analyze_metadata_patterns_def
        analyze_field_def suggest_related_def dict_get_def dict_update_def has_field_def
        model_query strip_def isspace_def whitespace_def Let_def)

end
